theory Spec2Isabelle
  imports Main
begin

section \<open>Guest lifecycle and access control of the event manager backend\<close>

text \<open>
  A shallow embedding of the guest schema and its methods (the module the controller
  requires as \<^verbatim>\<open>models/Guest\<close>), the guest controller
  (\<^verbatim>\<open>controllers/guestController.js\<close>), the access middleware (the module the
  routes require as \<^verbatim>\<open>middleware/authMiddleware\<close>), the error handler
  (\<^verbatim>\<open>middleware/errorHandler.js\<close>) and the wiring of
  \<^verbatim>\<open>routes/guestRoutes.js\<close>.

  The guest collection is a list of documents. A request handler is a function from the
  collection (and the values the handler reads from its environment: the clock, the random
  source) to an HTTP response and the collection afterwards. An exception thrown inside a
  controller is a value of type \<open>exn\<close>; \<open>asyncHandler\<close> passes it to \<open>errorHandler\<close>,
  which turns it into a response.

  Strings are ASCII: the accented letters of the Spanish messages are written without
  the accent.
\<close>

subsection \<open>Documents\<close>

type_synonym objectId = nat
type_synonym date = nat

text \<open>
  A document of \<open>guestSchema\<close>. A path of type String that may be absent (or
  \<open>null\<close>) is a \<open>string option\<close>; \<open>status\<close> has a default and \<open>createdBy\<close> is
  supplied by every caller in the source, so both are always present. \<open>gid\<close> is the
  \<^verbatim>\<open>_id\<close> of the document.
\<close>

record guest =
  gid :: objectId
  name :: "string option"
  email :: "string option"
  phone :: "string option"
  ticketType :: "string option"
  qrCode :: "string option"
  status :: string
  gift :: "string option"
  entryTime :: "date option"
  createdBy :: objectId
  createdAt :: date

text \<open>The authenticated principal that \<open>protect\<close> stores in \<^verbatim>\<open>req.user\<close>.\<close>

record user =
  uid :: objectId
  role :: string

subsection \<open>Exceptions, responses and the error handler\<close>

datatype exn =
    ValidationError "string list"
  | DuplicateKey string
  | JsonWebTokenError
  | TokenExpiredError
  | AppError string nat
  | Error string
  | TypeError string
  | CastError string
  | DocumentNotFoundError

record stats =
  totalGuests :: nat
  enteredGuests :: nat
  pendingGuests :: nat
  vipGuests :: nat
  generalGuests :: nat
  invitacionGuests :: nat
  giftsRegistered :: nat

text \<open>
  The JSON bodies the handlers send. \<open>Failure\<close> is \<^verbatim>\<open>{success: false, error}\<close> of the
  error handler, \<open>Denied\<close> is \<^verbatim>\<open>{success: false, message}\<close> of the middleware.
\<close>

datatype body =
    Data guest
  | DataOpt "guest option"
  | MessageData string guest
  | Created string guest string
  | Message string
  | StatsData stats
  | Failure string
  | FailureMessages string "string list"
  | FailureMessage string string
  | Denied string

record response =
  statusCode :: nat
  payload :: body

definition json :: "nat \<Rightarrow> body \<Rightarrow> response" where
  "json c b = \<lparr>statusCode = c, payload = b\<rparr>"

text \<open>
  \<open>errorHandler\<close>, in the order of its tests. An \<open>AppError\<close> is the only exception
  with \<open>isOperational\<close>; \<^verbatim>\<open>err.statusCode || 500\<close> replaces a status code 0 by 500.
  A plain \<open>Error\<close>, a \<open>TypeError\<close> and Mongoose's \<open>CastError\<close> (whose
  \<open>name\<close> is none of those the handler tests) reach the default branch.
\<close>

fun errorHandler :: "exn \<Rightarrow> response" where
  "errorHandler (ValidationError messages) =
     json 400 (FailureMessages ''Error de validacion'' messages)"
| "errorHandler (DuplicateKey field) =
     json 400 (FailureMessage ''Error de duplicado''
       (''El '' @ field @ '' ya existe en el sistema''))"
| "errorHandler JsonWebTokenError = json 401 (Failure ''Token invalido'')"
| "errorHandler TokenExpiredError = json 401 (Failure ''Token expirado'')"
| "errorHandler (AppError msg c) = json (if c = 0 then 500 else c) (Failure msg)"
| "errorHandler (Error msg) = json 500 (Failure ''Error del servidor'')"
| "errorHandler (TypeError msg) = json 500 (Failure ''Error del servidor'')"
| "errorHandler (CastError path) = json 500 (Failure ''Error del servidor'')"
| "errorHandler DocumentNotFoundError = json 500 (Failure ''Error del servidor'')"

subsection \<open>The collection\<close>

type_synonym store = "guest list"

definition findById :: "store \<Rightarrow> objectId \<Rightarrow> guest option" where
  "findById s i = find (\<lambda>g. gid g = i) s"

text \<open>
  The \<^verbatim>\<open>:id\<close> of a request path is a string, and \<^verbatim>\<open>Guest.findById(req.params.id)\<close>
  casts it to an ObjectId before it queries the collection. \<open>pathId\<close> is the
  parameter together with the outcome of that cast: \<open>Oid i\<close> is a parameter that
  denotes the ObjectId \<open>i\<close>, \<open>NotAnId v\<close> is a parameter \<open>v\<close> that is no
  ObjectId (such as \<^verbatim>\<open>abc\<close>). On the latter the query is rejected with a
  \<open>CastError\<close>, which carries the path whose value did not cast.
  \<open>guestExists\<close> says that the collection holds a guest under the id the parameter
  gives; no guest is stored under a parameter that is no ObjectId.
\<close>

datatype pathId = Oid objectId | NotAnId string

definition guest_findById :: "store \<Rightarrow> pathId \<Rightarrow> exn + guest option" where
  "guest_findById s pid =
     (case pid of NotAnId v \<Rightarrow> Inl (CastError ''_id'') | Oid i \<Rightarrow> Inr (findById s i))"

definition guestExists :: "store \<Rightarrow> pathId \<Rightarrow> bool" where
  "guestExists s pid =
     (case pid of NotAnId v \<Rightarrow> False | Oid i \<Rightarrow> findById s i \<noteq> None)"

subsection \<open>Statistics\<close>

text \<open>
  \<open>getGuestStats\<close> runs one \<^verbatim>\<open>$group\<close> stage with \<^verbatim>\<open>_id: null\<close>: every document is
  folded into a single group, each counter adding \<^verbatim>\<open>$cond: [test, 1, 0]\<close>. An empty
  collection yields no group at all, and the handler then sends its literal of zeros
  (\<^verbatim>\<open>stats[0] || {...}\<close>).
\<close>

definition cond :: "bool \<Rightarrow> nat" where
  "cond b = (if b then 1 else 0)"

definition zeroStats :: stats where
  "zeroStats = \<lparr>totalGuests = 0, enteredGuests = 0, pendingGuests = 0, vipGuests = 0,
     generalGuests = 0, invitacionGuests = 0, giftsRegistered = 0\<rparr>"

definition groupStep :: "stats \<Rightarrow> guest \<Rightarrow> stats" where
  "groupStep acc g =
     \<lparr>totalGuests = totalGuests acc + 1,
      enteredGuests = enteredGuests acc + cond (status g = ''ingresado''),
      pendingGuests = pendingGuests acc + cond (status g = ''pendiente''),
      vipGuests = vipGuests acc + cond (ticketType g = Some ''vip''),
      generalGuests = generalGuests acc + cond (ticketType g = Some ''general''),
      invitacionGuests = invitacionGuests acc + cond (ticketType g = Some ''invitacion''),
      giftsRegistered = giftsRegistered acc + cond (gift g \<noteq> None)\<rparr>"

definition aggregate :: "store \<Rightarrow> stats list" where
  "aggregate s = (if s = [] then [] else [foldl groupStep zeroStats s])"

definition getGuestStats :: "store \<Rightarrow> response" where
  "getGuestStats s =
     json 200 (StatsData (case aggregate s of [] \<Rightarrow> zeroStats | r # _ \<Rightarrow> r))"


subsection \<open>The schema: setters, validators and the save hook\<close>

text \<open>
  What a handler reads from outside the collection: the clock (\<^verbatim>\<open>Date.now()\<close>,
  \<^verbatim>\<open>new Date()\<close>), the \<^verbatim>\<open>_id\<close> the driver gives a new document, and the six
  characters \<^verbatim>\<open>Math.random().toString(36).substring(2, 8)\<close>.
\<close>

record env =
  now :: date
  newId :: objectId
  randomStr :: string

text \<open>The setters \<open>trim\<close> and \<open>lowercase\<close> of the schema, on ASCII.\<close>

definition isSpace :: "char \<Rightarrow> bool" where
  "isSpace c = (c \<in> set [CHR 0x09, CHR 0x0A, CHR 0x0B, CHR 0x0C, CHR 0x0D, CHR 0x20])"

definition trim :: "string \<Rightarrow> string" where
  "trim s = rev (dropWhile isSpace (rev (dropWhile isSpace s)))"

definition toLowerChar :: "char \<Rightarrow> char" where
  "toLowerChar c =
     (let n = (of_char c :: nat) in if 65 \<le> n \<and> n \<le> 90 then char_of (n + 32) else c)"

definition lowercase :: "string \<Rightarrow> string" where
  "lowercase s = map toLowerChar s"

text \<open>\<^verbatim>\<open>Number.prototype.toString(36)\<close> on a non-negative integer.\<close>

definition digit36 :: "nat \<Rightarrow> char" where
  "digit36 d = ''0123456789abcdefghijklmnopqrstuvwxyz'' ! (d mod 36)"

fun toString36 :: "nat \<Rightarrow> string" where
  "toString36 n =
     (if n < 36 then [digit36 n] else toString36 (n div 36) @ [digit36 (n mod 36)])"

declare toString36.simps [simp del]

text \<open>
  The validators of the schema, one message for each path that fails. The list follows
  the order of the schema; the order in which Mongoose collects the messages is not
  modelled, and no property below depends on it. \<open>required\<close> on a String path rejects an absent value and the empty
  string; \<open>enum\<close> rejects a string outside the list. \<open>createdBy\<close> is present in
  every document of this model, so its \<open>required\<close> never fails.
\<close>

definition ticketTypes :: "string list" where
  "ticketTypes = [''vip'', ''general'', ''invitacion'']"

definition statuses :: "string list" where
  "statuses = [''pendiente'', ''ingresado'', ''cancelado'']"

definition requiredString :: "string option \<Rightarrow> bool" where
  "requiredString v = (case v of None \<Rightarrow> False | Some x \<Rightarrow> x \<noteq> [])"

definition enumMessage :: "string \<Rightarrow> string \<Rightarrow> string" where
  "enumMessage v path = ''`'' @ v @ ''` is not a valid enum value for path `'' @ path @ ''`.''"

definition ticketTypeErrors :: "string option \<Rightarrow> string list" where
  "ticketTypeErrors v =
     (case v of
        None \<Rightarrow> [''El tipo de entrada es requerido'']
      | Some x \<Rightarrow>
          if x = [] then [''El tipo de entrada es requerido'']
          else if x \<in> set ticketTypes then []
          else [enumMessage x ''ticketType''])"

definition statusErrors :: "string \<Rightarrow> string list" where
  "statusErrors v = (if v \<in> set statuses then [] else [enumMessage v ''status''])"

definition validate :: "guest \<Rightarrow> string list" where
  "validate g =
     (if requiredString (name g) then [] else [''El nombre es requerido''])
     @ (if requiredString (email g) then [] else [''El email es requerido''])
     @ ticketTypeErrors (ticketType g)
     @ (if requiredString (qrCode g) then [] else [''Path `qrCode` is required.''])
     @ statusErrors (status g)"

text \<open>
  The hook \<^verbatim>\<open>guestSchema.pre('save', ...)\<close>: \<^verbatim>\<open>!this.qrCode\<close> holds for an absent
  and for an empty code.
\<close>

definition preSave :: "env \<Rightarrow> guest \<Rightarrow> guest" where
  "preSave e g =
     (if qrCode g = None \<or> qrCode g = Some []
      then g\<lparr>qrCode := Some (toString36 (now e) @ ''-'' @ randomStr e)\<rparr>
      else g)"

text \<open>
  \<^verbatim>\<open>Document.prototype.save\<close>. Mongoose registers its validation as the first
  \<^verbatim>\<open>pre('save')\<close> hook of every schema (the schema option \<open>validateBeforeSave\<close>,
  which the source leaves at its default): the validators run on the document before any
  hook the schema adds with \<^verbatim>\<open>pre('save', ...)\<close>, and a validation failure rejects the
  save before those hooks run. After the hooks a new document is inserted, and a loaded
  one is written back under its \<^verbatim>\<open>_id\<close>. The unique index on \<open>qrCode\<close> (and the one
  on \<^verbatim>\<open>_id\<close>) rejects an insertion that repeats a stored value.
\<close>

definition preSaveChain :: "env \<Rightarrow> guest \<Rightarrow> exn + guest" where
  "preSaveChain e g =
     (if validate g \<noteq> [] then Inl (ValidationError (validate g)) else Inr (preSave e g))"

definition insertOne :: "guest \<Rightarrow> store \<Rightarrow> exn + store" where
  "insertOne g s =
     (if gid g \<in> set (map gid s) then Inl (DuplicateKey ''_id'')
      else if qrCode g \<in> set (map qrCode s) then Inl (DuplicateKey ''qrCode'')
      else Inr (s @ [g]))"

fun replaceById :: "guest \<Rightarrow> store \<Rightarrow> store" where
  "replaceById g [] = []"
| "replaceById g (h # s) = (if gid h = gid g then g # s else h # replaceById g s)"

fun removeById :: "objectId \<Rightarrow> store \<Rightarrow> store" where
  "removeById i [] = []"
| "removeById i (h # s) = (if gid h = i then s else h # removeById i s)"

definition saveNew :: "env \<Rightarrow> guest \<Rightarrow> store \<Rightarrow> exn + guest \<times> store" where
  "saveNew e g s =
     (case preSaveChain e g of
        Inl x \<Rightarrow> Inl x
      | Inr g' \<Rightarrow> (case insertOne g' s of Inl x \<Rightarrow> Inl x | Inr s' \<Rightarrow> Inr (g', s')))"

definition save :: "env \<Rightarrow> guest \<Rightarrow> store \<Rightarrow> exn + guest \<times> store" where
  "save e g s =
     (case preSaveChain e g of
        Inl x \<Rightarrow> Inl x
      | Inr g' \<Rightarrow>
          if findById s (gid g') = None then Inl DocumentNotFoundError
          else Inr (g', replaceById g' s))"

subsection \<open>The methods of the guest schema\<close>

definition canEnter :: "guest \<Rightarrow> bool" where
  "canEnter g = (status g = ''pendiente'')"

definition guest_registerEntry :: "env \<Rightarrow> guest \<Rightarrow> store \<Rightarrow> exn + guest \<times> store" where
  "guest_registerEntry e g s =
     (if \<not> canEnter g
      then Inl (Error ''El invitado ya ha ingresado o su entrada esta cancelada'')
      else save e (g\<lparr>status := ''ingresado'', entryTime := Some (now e)\<rparr>) s)"

definition guest_registerGift ::
  "env \<Rightarrow> string \<Rightarrow> guest \<Rightarrow> store \<Rightarrow> exn + guest \<times> store" where
  "guest_registerGift e giftDescription g s =
     (if ticketType g \<noteq> Some ''invitacion''
      then Inl (Error (''Solo los invitados con tipo '' @ [CHR 0x22] @ ''invitacion''
             @ [CHR 0x22] @ '' pueden registrar regalos''))
      else save e (g\<lparr>gift := Some giftDescription\<rparr>) s)"

subsection \<open>The access middleware\<close>

text \<open>
  A middleware either answers (\<open>Some\<close> response) or calls \<^verbatim>\<open>next()\<close> (\<open>None\<close>).
  \<open>protect\<close> is outside this model: its result, the principal, is an argument.
\<close>

definition canManageGuests :: "user \<Rightarrow> response option" where
  "canManageGuests u =
     (if \<not> role u \<in> set [''admin'', ''staff'']
      then Some (json 403 (Denied ''No tiene permisos para gestionar invitados''))
      else None)"

text \<open>
  \<open>checkGuestAccess\<close> runs inside \<^verbatim>\<open>try\<close>: an exception of its
  \<^verbatim>\<open>findById\<close> is caught and passed on with \<^verbatim>\<open>next(error)\<close>, which reaches
  \<open>errorHandler\<close>.
\<close>

definition checkGuestAccess :: "user \<Rightarrow> pathId \<Rightarrow> store \<Rightarrow> response option" where
  "checkGuestAccess u pid s =
     (case guest_findById s pid of
        Inl x \<Rightarrow> Some (errorHandler x)
      | Inr None \<Rightarrow> Some (json 404 (Denied ''Invitado no encontrado''))
      | Inr (Some g) \<Rightarrow>
          if role u = ''admin'' \<or> createdBy g = uid u then None
          else Some (json 403 (Denied ''No tiene permisos para acceder a este invitado'')))"

subsection \<open>The controllers\<close>

text \<open>
  What the controllers use besides the guest collection: the user collection that
  \<^verbatim>\<open>populate('createdBy', 'username')\<close> reads, the external \<^verbatim>\<open>QRCode.toDataURL\<close>, and
  whether the installed Mongoose has \<^verbatim>\<open>Document.prototype.remove\<close> (Mongoose 6 and
  older have it, Mongoose 7 dropped it; \<^verbatim>\<open>package.json\<close> asks for \<^verbatim>\<open>^7.0.3\<close>).
  Every property below holds for both values of that flag.
\<close>

record deps =
  userDocs :: "user list"
  toDataURL :: "string \<Rightarrow> string"
  documentRemove :: bool

text \<open>
  A controller returns the exception it throws or the response it sends, and the
  collection as it leaves it. \<open>asyncHandler\<close> hands an exception to \<open>errorHandler\<close>.
\<close>

type_synonym outcome = "(exn + response) \<times> store"

definition asyncHandler :: "outcome \<Rightarrow> response \<times> store" where
  "asyncHandler r =
     (case fst r of Inl x \<Rightarrow> (errorHandler x, snd r) | Inr resp \<Rightarrow> (resp, snd r))"

text \<open>The fields \<open>createGuest\<close> takes from \<^verbatim>\<open>req.body\<close>; \<open>None\<close> is an absent key.\<close>

record guestInput =
  bName :: "string option"
  bEmail :: "string option"
  bPhone :: "string option"
  bTicketType :: "string option"

text \<open>
  \<^verbatim>\<open>Guest.create\<close> builds the document (setters applied, defaults filled in, no
  \<open>qrCode\<close>: the controller passes none) and saves it.
\<close>

definition newGuest :: "env \<Rightarrow> guestInput \<Rightarrow> objectId \<Rightarrow> guest" where
  "newGuest e b owner =
     \<lparr>gid = newId e,
      name = map_option trim (bName b),
      email = map_option (\<lambda>v. lowercase (trim v)) (bEmail b),
      phone = map_option trim (bPhone b),
      ticketType = bTicketType b,
      qrCode = None,
      status = ''pendiente'',
      gift = None,
      entryTime = None,
      createdBy = owner,
      createdAt = now e\<rparr>"

definition guest_create ::
  "env \<Rightarrow> guestInput \<Rightarrow> objectId \<Rightarrow> store \<Rightarrow> exn + guest \<times> store" where
  "guest_create e b owner s = saveNew e (newGuest e b owner) s"

definition createGuest :: "deps \<Rightarrow> env \<Rightarrow> user \<Rightarrow> guestInput \<Rightarrow> store \<Rightarrow> outcome" where
  "createGuest d e u b s =
     (case guest_create e b (uid u) s of
        Inl x \<Rightarrow> (Inl x, s)
      | Inr (g, s') \<Rightarrow>
          (case qrCode g of
             None \<Rightarrow> (Inl (Error ''No input text''), s')
           | Some q \<Rightarrow>
               if q = [] then (Inl (Error ''No input text''), s')
               else (Inr (json 201 (Created ''Invitado creado exitosamente'' g (toDataURL d q))),
                     s')))"

text \<open>
  \<open>getGuest\<close> compares the populated owner with the principal; when the owner is no
  longer a user, \<open>createdBy\<close> is populated with \<open>null\<close> and reading its \<^verbatim>\<open>_id\<close>
  throws. The \<^verbatim>\<open>&&\<close> of the source evaluates that only for a principal who is not admin.
\<close>

definition populateCreatedBy :: "user list \<Rightarrow> guest \<Rightarrow> user option" where
  "populateCreatedBy us g = find (\<lambda>w. uid w = createdBy g) us"

definition getGuest :: "deps \<Rightarrow> user \<Rightarrow> pathId \<Rightarrow> store \<Rightarrow> outcome" where
  "getGuest d u pid s =
     (case guest_findById s pid of
        Inl x \<Rightarrow> (Inl x, s)
      | Inr None \<Rightarrow> (Inl (AppError ''Invitado no encontrado'' 404), s)
      | Inr (Some g) \<Rightarrow>
          if role u \<noteq> ''admin'' then
            (case populateCreatedBy (userDocs d) g of
               None \<Rightarrow> (Inl (TypeError ''Cannot read properties of null''), s)
             | Some w \<Rightarrow>
                 if uid w \<noteq> uid u
                 then (Inl (AppError ''No autorizado para ver este invitado'' 403), s)
                 else (Inr (json 200 (Data g)), s))
          else (Inr (json 200 (Data g)), s))"

text \<open>
  The body of an update request: \<open>None\<close> is an absent key, \<open>Some\<close> a value of the
  type of the path. \<open>updateGuest\<close> hands the body to \<^verbatim>\<open>findByIdAndUpdate\<close> as it
  is, with \<open>runValidators\<close>: the setters and the validators of the paths the body names
  run, then the paths are set; the unique index rejects a \<open>qrCode\<close> another document
  holds.
\<close>

record guestPatch =
  pName :: "string option"
  pEmail :: "string option"
  pPhone :: "string option"
  pTicketType :: "string option"
  pQrCode :: "string option"
  pStatus :: "string option"
  pGift :: "string option"
  pEntryTime :: "date option"
  pCreatedBy :: "objectId option"
  pCreatedAt :: "date option"

definition setOpt :: "'a option \<Rightarrow> 'a option \<Rightarrow> 'a option" where
  "setOpt new old = (case new of None \<Rightarrow> old | Some v \<Rightarrow> Some v)"

definition setVal :: "'a option \<Rightarrow> 'a \<Rightarrow> 'a" where
  "setVal new old = (case new of None \<Rightarrow> old | Some v \<Rightarrow> v)"

definition applyPatch :: "guestPatch \<Rightarrow> guest \<Rightarrow> guest" where
  "applyPatch p g =
     g\<lparr>name := setOpt (map_option trim (pName p)) (name g),
       email := setOpt (map_option (\<lambda>v. lowercase (trim v)) (pEmail p)) (email g),
       phone := setOpt (map_option trim (pPhone p)) (phone g),
       ticketType := setOpt (pTicketType p) (ticketType g),
       qrCode := setOpt (pQrCode p) (qrCode g),
       status := setVal (pStatus p) (status g),
       gift := setOpt (pGift p) (gift g),
       entryTime := setOpt (pEntryTime p) (entryTime g),
       createdBy := setVal (pCreatedBy p) (createdBy g),
       createdAt := setVal (pCreatedAt p) (createdAt g)\<rparr>"

definition updateErrors :: "guestPatch \<Rightarrow> string list" where
  "updateErrors p =
     (case pName p of None \<Rightarrow> []
      | Some v \<Rightarrow> if trim v = [] then [''El nombre es requerido''] else [])
     @ (case pEmail p of None \<Rightarrow> []
        | Some v \<Rightarrow> if lowercase (trim v) = [] then [''El email es requerido''] else [])
     @ (case pTicketType p of None \<Rightarrow> [] | Some v \<Rightarrow> ticketTypeErrors (Some v))
     @ (case pQrCode p of None \<Rightarrow> []
        | Some v \<Rightarrow> if v = [] then [''Path `qrCode` is required.''] else [])
     @ (case pStatus p of None \<Rightarrow> [] | Some v \<Rightarrow> statusErrors v)"

text \<open>
  A number casts to a Date when it lies in the range of JavaScript dates, up to
  8640000000000000 milliseconds from the epoch; the update is cast before its validators
  run, and a value that does not cast rejects it with a \<open>CastError\<close>.
\<close>

definition castsToDate :: "date option \<Rightarrow> bool" where
  "castsToDate v = (case v of None \<Rightarrow> True | Some t \<Rightarrow> t \<le> 8640000000000000)"

definition findByIdAndUpdate ::
  "pathId \<Rightarrow> guestPatch \<Rightarrow> store \<Rightarrow> exn + guest option \<times> store" where
  "findByIdAndUpdate pid p s =
     (case pid of
        NotAnId v \<Rightarrow> Inl (CastError ''_id'')
      | Oid i \<Rightarrow>
          if \<not> castsToDate (pEntryTime p) then Inl (CastError ''entryTime'')
          else if \<not> castsToDate (pCreatedAt p) then Inl (CastError ''createdAt'')
          else if updateErrors p \<noteq> [] then Inl (ValidationError (updateErrors p))
          else
            (case findById s i of
               None \<Rightarrow> Inr (None, s)
             | Some g \<Rightarrow>
                 if pQrCode p \<noteq> None \<and> pQrCode p \<in> set (map qrCode (removeById i s))
                 then Inl (DuplicateKey ''qrCode'')
                 else Inr (Some (applyPatch p g), replaceById (applyPatch p g) s)))"

definition updateGuest :: "user \<Rightarrow> pathId \<Rightarrow> guestPatch \<Rightarrow> store \<Rightarrow> outcome" where
  "updateGuest u pid p s =
     (case guest_findById s pid of
        Inl x \<Rightarrow> (Inl x, s)
      | Inr None \<Rightarrow> (Inl (AppError ''Invitado no encontrado'' 404), s)
      | Inr (Some g) \<Rightarrow>
          if role u \<noteq> ''admin'' \<and> createdBy g \<noteq> uid u
          then (Inl (AppError ''No autorizado para actualizar este invitado'' 403), s)
          else
            (case findByIdAndUpdate pid p s of
               Inl x \<Rightarrow> (Inl x, s)
             | Inr (r, s') \<Rightarrow> (Inr (json 200 (DataOpt r)), s')))"

definition deleteGuest :: "deps \<Rightarrow> user \<Rightarrow> pathId \<Rightarrow> store \<Rightarrow> outcome" where
  "deleteGuest d u pid s =
     (case guest_findById s pid of
        Inl x \<Rightarrow> (Inl x, s)
      | Inr None \<Rightarrow> (Inl (AppError ''Invitado no encontrado'' 404), s)
      | Inr (Some g) \<Rightarrow>
          if role u \<noteq> ''admin'' \<and> createdBy g \<noteq> uid u
          then (Inl (AppError ''No autorizado para eliminar este invitado'' 403), s)
          else if documentRemove d
          then (Inr (json 200 (Message ''Invitado eliminado exitosamente'')),
                removeById (gid g) s)
          else (Inl (TypeError ''guest.remove is not a function''), s))"

definition registerEntry :: "env \<Rightarrow> pathId \<Rightarrow> store \<Rightarrow> outcome" where
  "registerEntry e pid s =
     (case guest_findById s pid of
        Inl x \<Rightarrow> (Inl x, s)
      | Inr None \<Rightarrow> (Inl (AppError ''Invitado no encontrado'' 404), s)
      | Inr (Some g) \<Rightarrow>
          if \<not> canEnter g
          then (Inl (AppError ''El invitado ya ha ingresado o su entrada esta cancelada'' 400),
                s)
          else
            (case guest_registerEntry e g s of
               Inl x \<Rightarrow> (Inl x, s)
             | Inr (g', s') \<Rightarrow>
                 (Inr (json 200 (MessageData ''Entrada registrada exitosamente'' g')), s')))"

definition registerGift :: "env \<Rightarrow> pathId \<Rightarrow> string \<Rightarrow> store \<Rightarrow> outcome" where
  "registerGift e pid giftDescription s =
     (case guest_findById s pid of
        Inl x \<Rightarrow> (Inl x, s)
      | Inr None \<Rightarrow> (Inl (AppError ''Invitado no encontrado'' 404), s)
      | Inr (Some g) \<Rightarrow>
          (case guest_registerGift e giftDescription g s of
             Inl x \<Rightarrow> (Inl x, s)
           | Inr (g', s') \<Rightarrow>
               (Inr (json 200 (MessageData ''Regalo registrado exitosamente'' g')), s')))"

subsection \<open>The routes\<close>

text \<open>
  The requests of \<^verbatim>\<open>guestRoutes.js\<close> that create, read, change or remove one guest,
  and the statistics. Every \<^verbatim>\<open>/:id\<close> route runs \<open>checkGuestAccess\<close> before its
  controller, the creation route runs \<open>canManageGuests\<close>.
\<close>

datatype request =
    CreateReq guestInput
  | GetReq pathId
  | UpdateReq pathId guestPatch
  | DeleteReq pathId
  | EntryReq pathId
  | GiftReq pathId string
  | StatsReq

definition guarded ::
  "user \<Rightarrow> pathId \<Rightarrow> store \<Rightarrow> outcome \<Rightarrow> response \<times> store" where
  "guarded u pid s k =
     (case checkGuestAccess u pid s of Some r \<Rightarrow> (r, s) | None \<Rightarrow> asyncHandler k)"

fun router :: "deps \<Rightarrow> env \<Rightarrow> user \<Rightarrow> request \<Rightarrow> store \<Rightarrow> response \<times> store" where
  "router d e u (CreateReq b) s =
     (case canManageGuests u of
        Some r \<Rightarrow> (r, s)
      | None \<Rightarrow> asyncHandler (createGuest d e u b s))"
| "router d e u (GetReq pid) s = guarded u pid s (getGuest d u pid s)"
| "router d e u (UpdateReq pid p) s = guarded u pid s (updateGuest u pid p s)"
| "router d e u (DeleteReq pid) s = guarded u pid s (deleteGuest d u pid s)"
| "router d e u (EntryReq pid) s = guarded u pid s (registerEntry e pid s)"
| "router d e u (GiftReq pid v) s = guarded u pid s (registerGift e pid v s)"
| "router d e u StatsReq s = (getGuestStats s, s)"

text \<open>The \<^verbatim>\<open>:id\<close> a request has in its path, if it has one.\<close>

fun target :: "request \<Rightarrow> pathId option" where
  "target (CreateReq b) = None"
| "target (GetReq pid) = Some pid"
| "target (UpdateReq pid p) = Some pid"
| "target (DeleteReq pid) = Some pid"
| "target (EntryReq pid) = Some pid"
| "target (GiftReq pid v) = Some pid"
| "target StatsReq = None"

subsection \<open>Sequences of requests\<close>

text \<open>
  \<open>run\<close> serves a list of requests one after the other, each with its own
  environment and principal, and returns the collection at the end. \<open>namesStatus\<close>
  holds for an update whose body has the key \<open>status\<close>. \<open>oneWay a b\<close> says
  that status \<open>b\<close> is status \<open>a\<close> or the step from \<open>pendiente\<close> to
  \<open>ingresado\<close>.
\<close>

fun namesStatus :: "request \<Rightarrow> bool" where
  "namesStatus (UpdateReq pid p) = (pStatus p \<noteq> None)"
| "namesStatus r = False"

type_synonym call = "env \<times> user \<times> request"

fun run :: "deps \<Rightarrow> call list \<Rightarrow> store \<Rightarrow> store" where
  "run d [] s = s"
| "run d (c # cs) s = run d cs (snd (router d (fst c) (fst (snd c)) (snd (snd c)) s))"

definition oneWay :: "string \<Rightarrow> string \<Rightarrow> bool" where
  "oneWay a b = (b = a \<or> (a = ''pendiente'' \<and> b = ''ingresado''))"

text \<open>The three ways a request leaves the collection.\<close>

definition effect :: "store \<Rightarrow> store \<Rightarrow> bool" where
  "effect s s' \<longleftrightarrow>
     s' = s
     \<or> (\<exists>g g'. findById s (gid g') = Some g \<and> oneWay (status g) (status g')
           \<and> s' = replaceById g' s)
     \<or> (\<exists>i. s' = removeById i s)"

subsection \<open>Requests in flight\<close>

text \<open>
  A handler is an \<^verbatim>\<open>async\<close> function: it runs alone from one \<^verbatim>\<open>await\<close> to the
  next, and while it waits other requests run. The entry route awaits three storage
  operations: the \<^verbatim>\<open>findById\<close> of \<open>checkGuestAccess\<close>, the \<^verbatim>\<open>findById\<close> of
  the controller, and the write of \<^verbatim>\<open>save\<close>. A request in flight is in one of four
  phases: not started, admitted by the middleware, holding the document the controller
  loaded, or answered. \<open>entryStep\<close> runs one request up to its next storage
  operation; \<open>registerEntry_loaded\<close> is the controller from the point where its
  \<^verbatim>\<open>findById\<close> has returned a document: both tests of \<open>canEnter\<close> and the save
  work on that loaded document.

  \<open>interleave\<close> runs several entry requests on one guest under a schedule, a list of
  request numbers, each occurrence letting that request take its next step.
  \<open>entryCalls\<close> serves the requests one after the other, each from start to answer,
  and lists the answers.
\<close>

datatype phase = Start | Admitted | Loaded guest | Done response

definition registerEntry_loaded :: "env \<Rightarrow> guest \<Rightarrow> store \<Rightarrow> outcome" where
  "registerEntry_loaded e g s =
     (if \<not> canEnter g
      then (Inl (AppError ''El invitado ya ha ingresado o su entrada esta cancelada'' 400),
            s)
      else
        (case guest_registerEntry e g s of
           Inl x \<Rightarrow> (Inl x, s)
         | Inr (g', s') \<Rightarrow>
             (Inr (json 200 (MessageData ''Entrada registrada exitosamente'' g')), s')))"

definition entryStep :: "env \<Rightarrow> user \<Rightarrow> pathId \<Rightarrow> phase \<Rightarrow> store \<Rightarrow> phase \<times> store" where
  "entryStep e u pid ph s =
     (case ph of
        Start \<Rightarrow>
          (case checkGuestAccess u pid s of
             Some r \<Rightarrow> (Done r, s)
           | None \<Rightarrow> (Admitted, s))
      | Admitted \<Rightarrow>
          (case guest_findById s pid of
             Inl x \<Rightarrow> (Done (errorHandler x), s)
           | Inr None \<Rightarrow> (Done (errorHandler (AppError ''Invitado no encontrado'' 404)), s)
           | Inr (Some g) \<Rightarrow> (Loaded g, s))
      | Loaded g \<Rightarrow>
          (Done (fst (asyncHandler (registerEntry_loaded e g s))),
           snd (asyncHandler (registerEntry_loaded e g s)))
      | Done r \<Rightarrow> (Done r, s))"

definition advance ::
  "pathId \<Rightarrow> (env \<times> user) list \<Rightarrow> nat \<Rightarrow> phase list \<times> store \<Rightarrow> phase list \<times> store" where
  "advance i reqs k st =
     (if k < length reqs \<and> k < length (fst st)
      then
        (let r = entryStep (fst (reqs ! k)) (snd (reqs ! k)) i (fst st ! k) (snd st)
         in ((fst st)[k := fst r], snd r))
      else st)"

fun interleave ::
  "pathId \<Rightarrow> (env \<times> user) list \<Rightarrow> nat list \<Rightarrow> phase list \<times> store \<Rightarrow> phase list \<times> store" where
  "interleave i reqs [] st = st"
| "interleave i reqs (k # ks) st = interleave i reqs ks (advance i reqs k st)"

fun entryCalls :: "deps \<Rightarrow> (env \<times> user) list \<Rightarrow> pathId \<Rightarrow> store \<Rightarrow> response list" where
  "entryCalls d [] pid s = []"
| "entryCalls d (c # cs) pid s =
     fst (router d (fst c) (snd c) (EntryReq pid) s)
       # entryCalls d cs pid (snd (router d (fst c) (snd c) (EntryReq pid) s))"

subsection \<open>Example data\<close>

text \<open>
  The users and guests of the repository's API tests: an admin, the staff user who
  creates the guests, a second staff user, a \<open>vip\<close> guest and an \<open>invitacion\<close>
  guest, as they would be stored.
\<close>

definition adminUser :: user where
  "adminUser = \<lparr>uid = 0, role = ''admin''\<rparr>"

definition staffA :: user where
  "staffA = \<lparr>uid = 1, role = ''staff''\<rparr>"

definition staffB :: user where
  "staffB = \<lparr>uid = 2, role = ''staff''\<rparr>"

definition testGuest :: guest where
  "testGuest =
     \<lparr>gid = 10, name = Some ''Test Guest'', email = Some ''test@example.com'',
      phone = Some ''1234567890'', ticketType = Some ''vip'', qrCode = Some ''lq2x7k1c-4f9a0z'',
      status = ''pendiente'', gift = None, entryTime = None, createdBy = 1,
      createdAt = 1700000000000\<rparr>"

definition invitationGuest :: guest where
  "invitationGuest =
     \<lparr>gid = 11, name = Some ''Invitation Guest'', email = Some ''invitation@example.com'',
      phone = Some ''1234567890'', ticketType = Some ''invitacion'',
      qrCode = Some ''lq2x7k9d-b81kq0'', status = ''pendiente'', gift = None,
      entryTime = None, createdBy = 1, createdAt = 1700000000500\<rparr>"

definition testDeps :: deps where
  "testDeps =
     \<lparr>userDocs = [adminUser, staffA, staffB],
      toDataURL = (\<lambda>q. ''data:image/png;base64,'' @ q),
      documentRemove = False\<rparr>"

definition testEnv :: env where
  "testEnv = \<lparr>now = 1700000001000, newId = 12, randomStr = ''k3x9q1''\<rparr>"

definition laterEnv :: env where
  "laterEnv = \<lparr>now = 1700000002000, newId = 13, randomStr = ''p0a7zz''\<rparr>"

text \<open>
  The body of the creation request of the API tests, the update body without any key,
  and an update body that names the code, the owner and the creation time.
\<close>

definition testInput :: guestInput where
  "testInput = \<lparr>bName = Some ''Test Guest'', bEmail = Some ''test@example.com'',
     bPhone = Some ''1234567890'', bTicketType = Some ''vip''\<rparr>"

definition emptyPatch :: guestPatch where
  "emptyPatch = \<lparr>pName = None, pEmail = None, pPhone = None, pTicketType = None,
     pQrCode = None, pStatus = None, pGift = None, pEntryTime = None, pCreatedBy = None,
     pCreatedAt = None\<rparr>"

definition forgedPatch :: guestPatch where
  "forgedPatch = emptyPatch\<lparr>pQrCode := Some ''forged'', pCreatedBy := Some 2, pCreatedAt := Some 0\<rparr>"

section \<open>Properties\<close>

subsection \<open>The collection and the save chain\<close>

lemma findById_gid: "findById s i = Some g \<Longrightarrow> gid g = i"
  by (auto simp: findById_def find_Some_iff)

lemma findById_replaceById:
  "findById s (gid g') \<noteq> None \<Longrightarrow> findById (replaceById g' s) (gid g') = Some g'"
  by (induction s) (auto simp: findById_def)

lemma findById_replaceById_other:
  "i \<noteq> gid g' \<Longrightarrow> findById (replaceById g' s) i = findById s i"
  by (induction s) (auto simp: findById_def)

lemma validate_Nil_iff:
  "validate g = [] \<longleftrightarrow>
     requiredString (name g) \<and> requiredString (email g)
     \<and> ticketTypeErrors (ticketType g) = []
     \<and> requiredString (qrCode g) \<and> statusErrors (status g) = []"
  by (simp add: validate_def)

lemma preSave_valid: "validate g = [] \<Longrightarrow> preSave e g = g"
  by (auto simp: validate_Nil_iff preSave_def requiredString_def split: option.splits)

lemma save_valid:
  "validate g = [] \<Longrightarrow> findById s (gid g) \<noteq> None \<Longrightarrow>
   save e g s = Inr (g, replaceById g s)"
  by (simp add: save_def preSaveChain_def preSave_valid)

lemma validate_entered:
  "validate g = [] \<Longrightarrow> validate (g\<lparr>status := ''ingresado'', entryTime := t\<rparr>) = []"
  by (simp add: validate_Nil_iff statusErrors_def statuses_def)

lemma validate_gift: "validate g = [] \<Longrightarrow> validate (g\<lparr>gift := v\<rparr>) = []"
  by (simp add: validate_Nil_iff)

lemma validate_testGuest: "validate testGuest = []"
  by (simp add: validate_def testGuest_def requiredString_def ticketTypeErrors_def
      ticketTypes_def statusErrors_def statuses_def)

lemma validate_invitationGuest: "validate invitationGuest = []"
  by (simp add: validate_def invitationGuest_def requiredString_def ticketTypeErrors_def
      ticketTypes_def statusErrors_def statuses_def)

subsection \<open>The access middleware\<close>

lemma castsToDate_None [simp]: "castsToDate None"
  by (simp add: castsToDate_def)

lemma castsToDate_Some [simp]: "castsToDate (Some t) \<longleftrightarrow> t \<le> 8640000000000000"
  by (simp add: castsToDate_def)

lemma guest_findById_Oid [simp]: "guest_findById s (Oid i) = Inr (findById s i)"
  by (simp add: guest_findById_def)

lemma guest_findById_NotAnId [simp]: "guest_findById s (NotAnId v) = Inl (CastError ''_id'')"
  by (simp add: guest_findById_def)

lemma guarded_allowed:
  "findById s i = Some g \<Longrightarrow> role u = ''admin'' \<or> createdBy g = uid u \<Longrightarrow>
   guarded u (Oid i) s k = asyncHandler k"
  by (auto simp: guarded_def checkGuestAccess_def)

lemma guarded_missing:
  "findById s i = None \<Longrightarrow>
   guarded u (Oid i) s k = (json 404 (Denied ''Invitado no encontrado''), s)"
  by (simp add: guarded_def checkGuestAccess_def)

lemma guarded_foreign:
  "findById s i = Some g \<Longrightarrow> role u \<noteq> ''admin'' \<Longrightarrow> createdBy g \<noteq> uid u \<Longrightarrow>
   guarded u (Oid i) s k
     = (json 403 (Denied ''No tiene permisos para acceder a este invitado''), s)"
  by (simp add: guarded_def checkGuestAccess_def)

lemma guarded_no_id:
  "guarded u (NotAnId v) s k = (json 500 (Failure ''Error del servidor''), s)"
  by (simp add: guarded_def checkGuestAccess_def)

subsection \<open>Entry registration\<close>

lemma registerEntry_pending:
  assumes "findById s i = Some g" "validate g = []" "status g = ''pendiente''"
  shows "registerEntry e (Oid i) s =
     (Inr (json 200 (MessageData ''Entrada registrada exitosamente''
        (g\<lparr>status := ''ingresado'', entryTime := Some (now e)\<rparr>))),
      replaceById (g\<lparr>status := ''ingresado'', entryTime := Some (now e)\<rparr>) s)"
proof -
  let ?g = "g\<lparr>status := ''ingresado'', entryTime := Some (now e)\<rparr>"
  have "gid ?g = i" using assms(1) by (simp add: findById_gid)
  then have "findById s (gid ?g) \<noteq> None" using assms(1) by simp
  then have "save e ?g s = Inr (?g, replaceById ?g s)"
    using validate_entered [OF assms(2)] by (simp add: save_valid)
  then show ?thesis
    using assms by (simp add: registerEntry_def guest_registerEntry_def canEnter_def)
qed

lemma registerEntry_not_pending:
  assumes "findById s i = Some g" "status g \<noteq> ''pendiente''"
  shows "registerEntry e (Oid i) s =
     (Inl (AppError ''El invitado ya ha ingresado o su entrada esta cancelada'' 400), s)"
  using assms by (simp add: registerEntry_def canEnter_def)

text \<open>
  Claim C1. For a stored guest (whose document passes the schema's validators, as every
  document written through the schema does) the entry controller answers 200 exactly
  when the status is \<open>pendiente\<close> before the call. On success the stored guest has
  status \<open>ingresado\<close> and \<open>entryTime\<close> set to the time of the call, and a second
  call on the same guest, at any later time, is answered 400 with the message of the
  invalid transition and changes nothing. A guest that is not \<open>pendiente\<close> gets that
  same 400 at once. For a principal who is admin or the owner the route
  \<^verbatim>\<open>POST /:id/entry\<close> is exactly this controller.
\<close>

theorem C1_registerEntry_state_machine:
  assumes found: "findById s i = Some g"
    and valid: "validate g = []"
  shows "(statusCode (fst (asyncHandler (registerEntry e (Oid i) s))) = 200
            \<longleftrightarrow> status g = ''pendiente'')
    \<and> (status g = ''pendiente'' \<longrightarrow>
          findById (snd (asyncHandler (registerEntry e (Oid i) s))) i
            = Some (g\<lparr>status := ''ingresado'', entryTime := Some (now e)\<rparr>)
          \<and> asyncHandler (registerEntry e' (Oid i) (snd (asyncHandler (registerEntry e (Oid i) s))))
            = (json 400 (Failure ''El invitado ya ha ingresado o su entrada esta cancelada''),
               snd (asyncHandler (registerEntry e (Oid i) s))))
    \<and> (status g \<noteq> ''pendiente'' \<longrightarrow>
          asyncHandler (registerEntry e (Oid i) s)
            = (json 400 (Failure ''El invitado ya ha ingresado o su entrada esta cancelada''), s))
    \<and> (role u = ''admin'' \<or> createdBy g = uid u \<longrightarrow>
          router d e u (EntryReq (Oid i)) s = asyncHandler (registerEntry e (Oid i) s))"
proof -
  have route: "role u = ''admin'' \<or> createdBy g = uid u \<longrightarrow>
      router d e u (EntryReq (Oid i)) s = asyncHandler (registerEntry e (Oid i) s)"
    using guarded_allowed [OF found] by simp
  show ?thesis
  proof (cases "status g = ''pendiente''")
    case True
    let ?g = "g\<lparr>status := ''ingresado'', entryTime := Some (now e)\<rparr>"
    let ?s = "replaceById ?g s"
    have gid: "gid ?g = i" using found by (simp add: findById_gid)
    have first: "asyncHandler (registerEntry e (Oid i) s) =
        (json 200 (MessageData ''Entrada registrada exitosamente'' ?g), ?s)"
      using registerEntry_pending [OF found valid True, of e]
      by (simp add: asyncHandler_def)
    have found': "findById ?s i = Some ?g"
      using findById_replaceById [of s ?g] found gid by simp
    have second: "asyncHandler (registerEntry e' (Oid i) ?s) =
        (json 400 (Failure ''El invitado ya ha ingresado o su entrada esta cancelada''), ?s)"
      using registerEntry_not_pending [OF found', of e']
      by (simp add: asyncHandler_def)
    show ?thesis using True first found' second route by (simp add: json_def)
  next
    case False
    have "asyncHandler (registerEntry e (Oid i) s) =
        (json 400 (Failure ''El invitado ya ha ingresado o su entrada esta cancelada''), s)"
      using registerEntry_not_pending [OF found False, of e]
      by (simp add: asyncHandler_def)
    then show ?thesis using False route by (simp add: json_def)
  qed
qed

theorem C1_registerEntry_witness:
  "findById [testGuest] 10 = Some testGuest
   \<and> validate testGuest = []
   \<and> status testGuest = ''pendiente''
   \<and> statusCode (fst (router testDeps testEnv staffA (EntryReq (Oid 10)) [testGuest])) = 200
   \<and> findById (snd (router testDeps testEnv staffA (EntryReq (Oid 10)) [testGuest])) 10
       = Some (testGuest\<lparr>status := ''ingresado'', entryTime := Some 1700000001000\<rparr>)
   \<and> statusCode (fst (router testDeps laterEnv staffA (EntryReq (Oid 10))
         (snd (router testDeps testEnv staffA (EntryReq (Oid 10)) [testGuest])))) = 400
   \<and> findById [invitationGuest\<lparr>status := ''cancelado''\<rparr>] 11
       = Some (invitationGuest\<lparr>status := ''cancelado''\<rparr>)
   \<and> validate (invitationGuest\<lparr>status := ''cancelado''\<rparr>) = []
   \<and> router testDeps testEnv adminUser (EntryReq (Oid 11)) [invitationGuest\<lparr>status := ''cancelado''\<rparr>]
       = (json 400 (Failure ''El invitado ya ha ingresado o su entrada esta cancelada''),
          [invitationGuest\<lparr>status := ''cancelado''\<rparr>])"
proof -
  have found: "findById [testGuest] 10 = Some testGuest"
    by (simp add: findById_def testGuest_def)
  have pending: "status testGuest = ''pendiente''"
    by (simp add: testGuest_def)
  have owner: "createdBy testGuest = uid staffA"
    by (simp add: testGuest_def staffA_def)
  have owner': "createdBy (testGuest\<lparr>status := ''ingresado'',
      entryTime := Some 1700000001000\<rparr>) = uid staffA"
    by (simp add: testGuest_def staffA_def)
  note main = C1_registerEntry_state_machine [OF found validate_testGuest,
      of testEnv laterEnv staffA testDeps]
  have first: "router testDeps testEnv staffA (EntryReq (Oid 10)) [testGuest]
      = asyncHandler (registerEntry testEnv (Oid 10) [testGuest])"
    using main owner by simp
  have after: "findById (snd (asyncHandler (registerEntry testEnv (Oid 10) [testGuest]))) 10
       = Some (testGuest\<lparr>status := ''ingresado'', entryTime := Some 1700000001000\<rparr>)"
    using main pending by (simp add: testEnv_def)
  have second: "router testDeps laterEnv staffA (EntryReq (Oid 10))
        (snd (asyncHandler (registerEntry testEnv (Oid 10) [testGuest])))
      = asyncHandler (registerEntry laterEnv (Oid 10)
          (snd (asyncHandler (registerEntry testEnv (Oid 10) [testGuest]))))"
    using guarded_allowed [OF after, of staffA] owner' by simp
  let ?c = "invitationGuest\<lparr>status := ''cancelado''\<rparr>"
  have found_c: "findById [?c] 11 = Some ?c"
    by (simp add: findById_def invitationGuest_def)
  have valid_c: "validate ?c = []"
    using validate_invitationGuest
    by (simp add: validate_Nil_iff statusErrors_def statuses_def)
  have cancelled: "status ?c \<noteq> ''pendiente''" by simp
  have admin: "role adminUser = ''admin''" by (simp add: adminUser_def)
  have third: "router testDeps testEnv adminUser (EntryReq (Oid 11)) [?c]
      = (json 400 (Failure ''El invitado ya ha ingresado o su entrada esta cancelada''), [?c])"
    using C1_registerEntry_state_machine [OF found_c valid_c, of testEnv laterEnv adminUser
        testDeps] cancelled admin
    by simp
  show ?thesis
    using main pending found first after second found_c valid_c third
    by (simp add: validate_testGuest json_def)
qed

subsection \<open>Ownership and missing guests\<close>

lemma errorHandler_403:
  "statusCode (errorHandler x) = 403 \<longleftrightarrow> (\<exists>m. x = AppError m 403)"
  by (cases x) (auto simp: json_def)

lemma save_not_AppError: "save e g s \<noteq> Inl (AppError m c)"
  by (simp add: save_def preSaveChain_def split: sum.splits)

lemma findByIdAndUpdate_not_AppError: "findByIdAndUpdate pid p s \<noteq> Inl (AppError m c)"
  by (cases pid) (simp_all add: findByIdAndUpdate_def split: option.splits)

lemma admin_getGuest:
  "role u = ''admin'' \<Longrightarrow> statusCode (fst (asyncHandler (getGuest d u pid s))) \<noteq> 403"
  by (cases pid)
    (simp_all add: getGuest_def asyncHandler_def json_def split: option.splits)

lemma admin_updateGuest:
  "role u = ''admin'' \<Longrightarrow>
   statusCode (fst (asyncHandler (updateGuest u pid p s))) \<noteq> 403"
  using findByIdAndUpdate_not_AppError [of pid p s]
  by (cases pid)
    (auto simp: updateGuest_def asyncHandler_def json_def errorHandler_403
      split: option.splits sum.splits)

lemma admin_deleteGuest:
  "role u = ''admin'' \<Longrightarrow> statusCode (fst (asyncHandler (deleteGuest d u pid s))) \<noteq> 403"
  by (cases pid)
    (simp_all add: deleteGuest_def asyncHandler_def json_def split: option.splits)

lemma any_registerEntry:
  "statusCode (fst (asyncHandler (registerEntry e pid s))) \<noteq> 403"
  using save_not_AppError
  by (cases pid)
    (auto simp: registerEntry_def guest_registerEntry_def asyncHandler_def json_def
      errorHandler_403 split: option.splits sum.splits if_splits)

lemma any_registerGift:
  "statusCode (fst (asyncHandler (registerGift e pid v s))) \<noteq> 403"
  using save_not_AppError
  by (cases pid)
    (auto simp: registerGift_def guest_registerGift_def asyncHandler_def json_def
      errorHandler_403 split: option.splits sum.splits if_splits)

lemma guarded_admin:
  "role u = ''admin'' \<Longrightarrow> statusCode (fst (asyncHandler k)) \<noteq> 403 \<Longrightarrow>
   statusCode (fst (guarded u pid s k)) \<noteq> 403"
  by (cases pid)
    (simp_all add: guarded_def checkGuestAccess_def json_def split: option.splits)

text \<open>
  Claim C5. Let a request read, update, delete, register the entry of or register a gift
  for a stored guest. When the principal has role \<open>staff\<close> and is not the guest's
  creator, the answer is 403 and the collection is unchanged. When the principal has
  role \<open>admin\<close>, the answer is never 403, whoever created the guest.
\<close>

theorem C5_ownership_isolation:
  assumes "target req = Some (Oid i)" and "findById s i = Some g"
  shows "(role u = ''staff'' \<and> uid u \<noteq> createdBy g \<longrightarrow>
            router d e u req s
              = (json 403 (Denied ''No tiene permisos para acceder a este invitado''), s))
       \<and> (role u = ''admin'' \<longrightarrow> statusCode (fst (router d e u req s)) \<noteq> 403)"
proof (intro conjI impI)
  assume staff: "role u = ''staff'' \<and> uid u \<noteq> createdBy g"
  then have "role u \<noteq> ''admin''" and "createdBy g \<noteq> uid u" by auto
  then have "guarded u (Oid i) s k
      = (json 403 (Denied ''No tiene permisos para acceder a este invitado''), s)" for k
    using assms(2) by (simp add: guarded_foreign)
  then show "router d e u req s
      = (json 403 (Denied ''No tiene permisos para acceder a este invitado''), s)"
    using assms(1) by (cases req) simp_all
next
  assume admin: "role u = ''admin''"
  show "statusCode (fst (router d e u req s)) \<noteq> 403"
    using assms(1) admin
    by (cases req)
      (simp_all add: guarded_admin admin_getGuest admin_updateGuest admin_deleteGuest
        any_registerEntry any_registerGift)
qed

theorem C5_ownership_witness:
  "target (DeleteReq (Oid 10)) = Some (Oid 10)
   \<and> findById [testGuest] 10 = Some testGuest
   \<and> role staffB = ''staff'' \<and> uid staffB \<noteq> createdBy testGuest
   \<and> router testDeps testEnv staffB (DeleteReq (Oid 10)) [testGuest]
       = (json 403 (Denied ''No tiene permisos para acceder a este invitado''), [testGuest])
   \<and> role adminUser = ''admin''
   \<and> statusCode (fst (router testDeps testEnv adminUser (DeleteReq (Oid 10)) [testGuest])) \<noteq> 403"
proof -
  have t: "target (DeleteReq (Oid 10)) = Some (Oid 10)" by simp
  have found: "findById [testGuest] 10 = Some testGuest"
    by (simp add: findById_def testGuest_def)
  have staff: "role staffB = ''staff'' \<and> uid staffB \<noteq> createdBy testGuest"
    by (simp add: staffB_def testGuest_def)
  have admin: "role adminUser = ''admin''" by (simp add: adminUser_def)
  show ?thesis
    using C5_ownership_isolation [OF t found, of staffB testDeps testEnv]
      C5_ownership_isolation [OF t found, of adminUser testDeps testEnv]
      found staff admin
    by simp
qed

lemma router_no_id:
  assumes "target req = Some (NotAnId v)"
  shows "router d e u req s = (json 500 (Failure ''Error del servidor''), s)"
  using assms by (cases req) (simp_all add: guarded_no_id)

text \<open>
  Claim C6, as the code has it. A request whose path id is an ObjectId that no stored
  guest has is answered 404, with the collection unchanged, whoever the principal is:
  \<open>checkGuestAccess\<close> looks the guest up first and compares the owner only when it
  found one.
\<close>

theorem C6_not_found_first:
  assumes "target req = Some (Oid i)" and "findById s i = None"
  shows "router d e u req s = (json 404 (Denied ''Invitado no encontrado''), s)"
  using assms by (cases req) (simp_all add: guarded_missing)

theorem C6_not_found_witness:
  "target (GiftReq (Oid 99) ''Test Gift'') = Some (Oid 99)
   \<and> findById [testGuest] 99 = None
   \<and> router testDeps testEnv staffB (GiftReq (Oid 99) ''Test Gift'') [testGuest]
       = (json 404 (Denied ''Invitado no encontrado''), [testGuest])"
proof -
  have t: "target (GiftReq (Oid 99) ''Test Gift'') = Some (Oid 99)" by simp
  have missing: "findById [testGuest] 99 = None"
    by (simp add: findById_def testGuest_def)
  show ?thesis
    using C6_not_found_first [OF t missing, of testDeps testEnv staffB] missing by simp
qed


text \<open>
  The claim as stated fails for a path id that is no ObjectId: no guest is stored under
  it, and yet the answer is not 404. The \<^verbatim>\<open>findById\<close> of \<open>checkGuestAccess\<close>
  throws a \<open>CastError\<close>, the middleware passes it on, and \<open>errorHandler\<close> answers
  500 from its default branch.
\<close>

theorem C6_no_id_counterexample:
  "target (GetReq (NotAnId ''abc'')) = Some (NotAnId ''abc'')
   \<and> \<not> guestExists [testGuest] (NotAnId ''abc'')
   \<and> router testDeps testEnv staffB (GetReq (NotAnId ''abc'')) [testGuest]
       = (json 500 (Failure ''Error del servidor''), [testGuest])
   \<and> statusCode (fst (router testDeps testEnv staffB (GetReq (NotAnId ''abc'')) [testGuest]))
       \<noteq> 404"
  by (simp add: guarded_def checkGuestAccess_def guestExists_def json_def)

subsection \<open>Statistics\<close>




text \<open>
  Claim C10. On the empty collection the statistics request still answers 200, and its
  report holds all seven counters, each equal to 0.
\<close>

theorem C10_stats_empty:
  "getGuestStats [] =
     \<lparr>statusCode = 200,
      payload = StatsData \<lparr>totalGuests = 0, enteredGuests = 0, pendingGuests = 0,
        vipGuests = 0, generalGuests = 0, invitacionGuests = 0, giftsRegistered = 0\<rparr>\<rparr>"
  by (simp add: getGuestStats_def aggregate_def json_def zeroStats_def)

subsection \<open>Gift registration\<close>

lemma registerGift_other:
  assumes "findById s i = Some g" "ticketType g \<noteq> Some ''invitacion''"
  shows "asyncHandler (registerGift e (Oid i) v s) = (json 500 (Failure ''Error del servidor''), s)"
  using assms by (simp add: registerGift_def guest_registerGift_def asyncHandler_def)

lemma registerGift_invitacion:
  assumes "findById s i = Some g" "validate g = []" "ticketType g = Some ''invitacion''"
  shows "asyncHandler (registerGift e (Oid i) v s) =
     (json 200 (MessageData ''Regalo registrado exitosamente'' (g\<lparr>gift := Some v\<rparr>)),
      replaceById (g\<lparr>gift := Some v\<rparr>) s)"
proof -
  let ?g = "g\<lparr>gift := Some v\<rparr>"
  have "gid ?g = i" using assms(1) by (simp add: findById_gid)
  then have "findById s (gid ?g) \<noteq> None" using assms(1) by simp
  then have "save e ?g s = Inr (?g, replaceById ?g s)"
    using validate_gift [OF assms(2)] by (simp add: save_valid)
  then show ?thesis
    using assms by (simp add: registerGift_def guest_registerGift_def asyncHandler_def)
qed

text \<open>
  Claim C2. For a stored, schema-valid guest whose ticket type is \<open>vip\<close> or
  \<open>general\<close> the gift controller is answered 500 with the generic server error, not
  400: the schema method throws a plain \<open>Error\<close>, which is not operational, so
  \<open>errorHandler\<close> takes its default branch. The collection is unchanged. For a guest
  whose ticket type is \<open>invitacion\<close> the answer is 200 and the stored gift is the
  supplied value. For a principal who is admin or the owner the route
  \<^verbatim>\<open>POST /:id/gift\<close> is exactly this controller.
\<close>

theorem C2_registerGift_answers:
  assumes found: "findById s i = Some g"
    and valid: "validate g = []"
  shows "(ticketType g = Some ''vip'' \<or> ticketType g = Some ''general'' \<longrightarrow>
            asyncHandler (registerGift e (Oid i) v s) = (json 500 (Failure ''Error del servidor''), s))
    \<and> (ticketType g = Some ''invitacion'' \<longrightarrow>
            statusCode (fst (asyncHandler (registerGift e (Oid i) v s))) = 200
            \<and> findById (snd (asyncHandler (registerGift e (Oid i) v s))) i
                = Some (g\<lparr>gift := Some v\<rparr>))
    \<and> (role u = ''admin'' \<or> createdBy g = uid u \<longrightarrow>
            router d e u (GiftReq (Oid i) v) s = asyncHandler (registerGift e (Oid i) v s))"
proof (intro conjI impI)
  assume "ticketType g = Some ''vip'' \<or> ticketType g = Some ''general''"
  then have "ticketType g \<noteq> Some ''invitacion''" by auto
  then show "asyncHandler (registerGift e (Oid i) v s) = (json 500 (Failure ''Error del servidor''), s)"
    using found by (simp add: registerGift_other)
next
  assume inv: "ticketType g = Some ''invitacion''"
  show "statusCode (fst (asyncHandler (registerGift e (Oid i) v s))) = 200"
    using registerGift_invitacion [OF found valid inv] by (simp add: json_def)
  have "gid (g\<lparr>gift := Some v\<rparr>) = i" using found by (simp add: findById_gid)
  then show "findById (snd (asyncHandler (registerGift e (Oid i) v s))) i = Some (g\<lparr>gift := Some v\<rparr>)"
    using registerGift_invitacion [OF found valid inv, of e v]
      findById_replaceById [of s "g\<lparr>gift := Some v\<rparr>"] found
    by simp
next
  assume "role u = ''admin'' \<or> createdBy g = uid u"
  then show "router d e u (GiftReq (Oid i) v) s = asyncHandler (registerGift e (Oid i) v s)"
    using guarded_allowed [OF found] by simp
qed

theorem C2_registerGift_witness:
  "findById [testGuest, invitationGuest] 10 = Some testGuest
   \<and> validate testGuest = []
   \<and> ticketType testGuest = Some ''vip''
   \<and> router testDeps testEnv staffA (GiftReq (Oid 10) ''Test Gift'') [testGuest, invitationGuest]
       = (json 500 (Failure ''Error del servidor''), [testGuest, invitationGuest])
   \<and> findById [testGuest, invitationGuest] 11 = Some invitationGuest
   \<and> validate invitationGuest = []
   \<and> ticketType invitationGuest = Some ''invitacion''
   \<and> statusCode (fst (router testDeps testEnv staffA (GiftReq (Oid 11) ''Test Gift'')
         [testGuest, invitationGuest])) = 200
   \<and> findById (snd (router testDeps testEnv staffA (GiftReq (Oid 11) ''Test Gift'')
         [testGuest, invitationGuest])) 11
       = Some (invitationGuest\<lparr>gift := Some ''Test Gift''\<rparr>)"
proof -
  have found: "findById [testGuest, invitationGuest] 10 = Some testGuest"
    by (simp add: findById_def testGuest_def)
  have vip: "ticketType testGuest = Some ''vip''" by (simp add: testGuest_def)
  have owner: "createdBy testGuest = uid staffA" by (simp add: testGuest_def staffA_def)
  have found_i: "findById [testGuest, invitationGuest] 11 = Some invitationGuest"
    by (simp add: findById_def testGuest_def invitationGuest_def)
  have inv: "ticketType invitationGuest = Some ''invitacion''"
    by (simp add: invitationGuest_def)
  have owner_i: "createdBy invitationGuest = uid staffA"
    by (simp add: invitationGuest_def staffA_def)
  note refused = C2_registerGift_answers [OF found validate_testGuest,
      of testEnv "''Test Gift''" staffA testDeps]
  note accepted = C2_registerGift_answers [OF found_i validate_invitationGuest,
      of testEnv "''Test Gift''" staffA testDeps]
  show ?thesis
    using refused accepted found vip owner found_i inv owner_i
    by (simp add: validate_testGuest validate_invitationGuest)
qed

subsection \<open>Creation\<close>

text \<open>
  The controller passes no \<open>qrCode\<close> to \<^verbatim>\<open>Guest.create\<close>, the path is
  \<open>required\<close>, and the validators run before the hook that would fill it in: the save
  is rejected for every input.
\<close>

lemma saveNew_no_qrCode: "qrCode g = None \<Longrightarrow> saveNew e g s = Inl (ValidationError (validate g))"
  by (simp add: saveNew_def preSaveChain_def validate_def requiredString_def)

lemma createGuest_rejected:
  "createGuest d e u b s = (Inl (ValidationError (validate (newGuest e b (uid u)))), s)"
  by (simp add: createGuest_def guest_create_def saveNew_no_qrCode newGuest_def)

lemma create_route_unchanged:
  "snd (router d e u (CreateReq b) s) = s
   \<and> statusCode (fst (router d e u (CreateReq b) s)) \<noteq> 201"
  by (simp add: createGuest_rejected asyncHandler_def canManageGuests_def json_def)

text \<open>
  The hook alone always leaves a non-empty code, and had it run before the validators
  (as a \<^verbatim>\<open>pre('validate')\<close> hook does), the document of the API test's request
  would have passed them.
\<close>

lemma preSave_fills: "requiredString (qrCode (preSave e g))"
  by (cases "qrCode g") (auto simp: preSave_def requiredString_def)

lemma hook_before_validators:
  "validate (preSave e (newGuest e testInput (uid staffA))) = []"
  using preSave_fills [of e "newGuest e testInput (uid staffA)"]
  by (simp add: validate_Nil_iff preSave_def newGuest_def testInput_def requiredString_def
      ticketTypeErrors_def ticketTypes_def statusErrors_def statuses_def trim_def isSpace_def
      lowercase_def)

text \<open>
  Claim C8, at the creation request of the repository's API test (a staff principal,
  name, email, phone and ticket type \<open>vip\<close>, no \<open>qrCode\<close>, an empty collection):
  the answer is 400 with the validation message of the missing \<open>qrCode\<close>, and no
  guest is stored.
\<close>

theorem C8_create_rejected:
  "router testDeps testEnv staffA (CreateReq testInput) []
     = (json 400 (FailureMessages ''Error de validacion'' [''Path `qrCode` is required.'']), [])"
  by (simp add: createGuest_rejected asyncHandler_def canManageGuests_def staffA_def
      validate_def newGuest_def testInput_def requiredString_def ticketTypeErrors_def
      ticketTypes_def statusErrors_def statuses_def trim_def isSpace_def lowercase_def)


subsection \<open>Update\<close>

lemma gid_applyPatch: "gid (applyPatch p g) = gid g"
  by (simp add: applyPatch_def)

lemma updateGuest_cases:
  assumes "findById s i = Some g"
  shows "asyncHandler (updateGuest u (Oid i) p s)
           = (json 200 (DataOpt (Some (applyPatch p g))), replaceById (applyPatch p g) s)
       \<or> (snd (asyncHandler (updateGuest u (Oid i) p s)) = s
           \<and> statusCode (fst (asyncHandler (updateGuest u (Oid i) p s))) \<noteq> 200)"
  using assms
  by (simp add: updateGuest_def findByIdAndUpdate_def asyncHandler_def json_def)

lemma findById_after_update:
  assumes "findById s i = Some g"
  shows "findById (replaceById (applyPatch p g) s) i = Some (applyPatch p g)"
proof -
  have "gid (applyPatch p g) = i" using assms by (simp add: gid_applyPatch findById_gid)
  then show ?thesis using findById_replaceById [of s "applyPatch p g"] assms by simp
qed

text \<open>
  Claim C3, as the code has it. After an update request on a stored guest the guest is
  still stored under its id. When the update is accepted (200), each of \<open>qrCode\<close>,
  \<open>createdBy\<close> and \<open>createdAt\<close> holds the value the body gives it, or its
  old value when the body does not name it; when the update is rejected, nothing
  changes. So a body that names none of the three leaves them as they were. For a
  principal who is admin or the owner the route \<^verbatim>\<open>PUT /:id\<close> is exactly this
  controller.
\<close>

theorem C3_update_frame:
  assumes found: "findById s i = Some g"
  shows "\<exists>g'. findById (snd (asyncHandler (updateGuest u (Oid i) p s))) i = Some g'
      \<and> (statusCode (fst (asyncHandler (updateGuest u (Oid i) p s))) = 200 \<longrightarrow>
            qrCode g' = (case pQrCode p of None \<Rightarrow> qrCode g | Some q \<Rightarrow> Some q)
          \<and> createdBy g' = (case pCreatedBy p of None \<Rightarrow> createdBy g | Some c \<Rightarrow> c)
          \<and> createdAt g' = (case pCreatedAt p of None \<Rightarrow> createdAt g | Some t \<Rightarrow> t))
      \<and> (statusCode (fst (asyncHandler (updateGuest u (Oid i) p s))) \<noteq> 200 \<longrightarrow>
            snd (asyncHandler (updateGuest u (Oid i) p s)) = s \<and> g' = g)
      \<and> (pQrCode p = None \<longrightarrow> qrCode g' = qrCode g)
      \<and> (pCreatedBy p = None \<longrightarrow> createdBy g' = createdBy g)
      \<and> (pCreatedAt p = None \<longrightarrow> createdAt g' = createdAt g)
      \<and> (role u = ''admin'' \<or> createdBy g = uid u \<longrightarrow>
            router d e u (UpdateReq (Oid i) p) s = asyncHandler (updateGuest u (Oid i) p s))"
proof -
  have route: "role u = ''admin'' \<or> createdBy g = uid u \<longrightarrow>
      router d e u (UpdateReq (Oid i) p) s = asyncHandler (updateGuest u (Oid i) p s)"
    using guarded_allowed [OF found] by simp
  from updateGuest_cases [OF found, of u p]
  show ?thesis
  proof
    assume ok: "asyncHandler (updateGuest u (Oid i) p s)
        = (json 200 (DataOpt (Some (applyPatch p g))), replaceById (applyPatch p g) s)"
    have "findById (snd (asyncHandler (updateGuest u (Oid i) p s))) i = Some (applyPatch p g)"
      using ok findById_after_update [OF found] by simp
    moreover have "statusCode (fst (asyncHandler (updateGuest u (Oid i) p s))) = 200"
      using ok by (simp add: json_def)
    moreover have "qrCode (applyPatch p g) = (case pQrCode p of None \<Rightarrow> qrCode g | Some q \<Rightarrow> Some q)"
      "createdBy (applyPatch p g) = (case pCreatedBy p of None \<Rightarrow> createdBy g | Some c \<Rightarrow> c)"
      "createdAt (applyPatch p g) = (case pCreatedAt p of None \<Rightarrow> createdAt g | Some t \<Rightarrow> t)"
      by (simp_all add: applyPatch_def setOpt_def setVal_def)
    ultimately show ?thesis using route by auto
  next
    assume no: "snd (asyncHandler (updateGuest u (Oid i) p s)) = s
        \<and> statusCode (fst (asyncHandler (updateGuest u (Oid i) p s))) \<noteq> 200"
    then show ?thesis using found route by auto
  qed
qed

theorem C3_update_frame_witness:
  "findById [testGuest] 10 = Some testGuest
   \<and> statusCode (fst (asyncHandler (updateGuest staffA (Oid 10)
         (emptyPatch\<lparr>pPhone := Some ''555''\<rparr>) [testGuest]))) = 200
   \<and> (\<exists>g'. findById (snd (asyncHandler (updateGuest staffA (Oid 10)
           (emptyPatch\<lparr>pPhone := Some ''555''\<rparr>) [testGuest]))) 10 = Some g'
        \<and> qrCode g' = qrCode testGuest \<and> createdBy g' = createdBy testGuest
        \<and> createdAt g' = createdAt testGuest)
   \<and> statusCode (fst (asyncHandler (updateGuest staffA (Oid 10) forgedPatch [testGuest]))) = 200
   \<and> (\<exists>g'. findById (snd (asyncHandler (updateGuest staffA (Oid 10) forgedPatch [testGuest]))) 10
          = Some g'
        \<and> qrCode g' = Some ''forged'' \<and> createdBy g' = 2 \<and> createdAt g' = 0)
   \<and> statusCode (fst (asyncHandler (updateGuest staffA (Oid 10)
         (emptyPatch\<lparr>pQrCode := Some []\<rparr>) [testGuest]))) \<noteq> 200
   \<and> snd (asyncHandler (updateGuest staffA (Oid 10)
         (emptyPatch\<lparr>pQrCode := Some []\<rparr>) [testGuest])) = [testGuest]"
proof -
  let ?quiet = "emptyPatch\<lparr>pPhone := Some ''555''\<rparr>"
  let ?bad = "emptyPatch\<lparr>pQrCode := Some []\<rparr>"
  have found: "findById [testGuest] 10 = Some testGuest"
    by (simp add: findById_def testGuest_def)
  have ok: "statusCode (fst (asyncHandler (updateGuest staffA (Oid 10) ?quiet [testGuest]))) = 200"
    using found
    by (simp add: updateGuest_def findByIdAndUpdate_def asyncHandler_def json_def
        updateErrors_def emptyPatch_def staffA_def testGuest_def)
  have ok_forged: "statusCode (fst (asyncHandler (updateGuest staffA (Oid 10) forgedPatch
      [testGuest]))) = 200"
    using found
    by (simp add: updateGuest_def findByIdAndUpdate_def asyncHandler_def json_def
        updateErrors_def forgedPatch_def emptyPatch_def staffA_def testGuest_def)
  have rejected: "statusCode (fst (asyncHandler (updateGuest staffA (Oid 10) ?bad [testGuest])))
      \<noteq> 200"
    using found
    by (simp add: updateGuest_def findByIdAndUpdate_def asyncHandler_def json_def
        updateErrors_def emptyPatch_def staffA_def testGuest_def)
  have none: "pQrCode ?quiet = None" "pCreatedBy ?quiet = None" "pCreatedAt ?quiet = None"
    by (simp_all add: emptyPatch_def)
  have named: "pQrCode forgedPatch = Some ''forged''" "pCreatedBy forgedPatch = Some 2"
    "pCreatedAt forgedPatch = Some 0"
    by (simp_all add: forgedPatch_def)
  have quiet: "\<exists>g'. findById (snd (asyncHandler (updateGuest staffA (Oid 10) ?quiet [testGuest]))) 10
        = Some g'
      \<and> qrCode g' = qrCode testGuest \<and> createdBy g' = createdBy testGuest
      \<and> createdAt g' = createdAt testGuest"
    using C3_update_frame [OF found, of staffA ?quiet testDeps testEnv] none by auto
  have forged: "\<exists>g'. findById (snd (asyncHandler (updateGuest staffA (Oid 10) forgedPatch
        [testGuest]))) 10 = Some g'
      \<and> qrCode g' = Some ''forged'' \<and> createdBy g' = 2 \<and> createdAt g' = 0"
    using C3_update_frame [OF found, of staffA forgedPatch testDeps testEnv] ok_forged named
    by auto
  have same: "snd (asyncHandler (updateGuest staffA (Oid 10) ?bad [testGuest])) = [testGuest]"
    using C3_update_frame [OF found, of staffA ?bad testDeps testEnv] rejected by auto
  show ?thesis
    using found ok quiet ok_forged forged rejected same by simp
qed

text \<open>
  The claim as stated fails: the owner's update with a body naming \<open>qrCode\<close>,
  \<open>createdBy\<close> and \<open>createdAt\<close> is accepted and overwrites all three.
\<close>

theorem C3_update_counterexample:
  "statusCode (fst (router testDeps testEnv staffA (UpdateReq (Oid 10) forgedPatch) [testGuest])) = 200
   \<and> findById (snd (router testDeps testEnv staffA (UpdateReq (Oid 10) forgedPatch) [testGuest])) 10
       = Some (testGuest\<lparr>qrCode := Some ''forged'', createdBy := 2, createdAt := 0\<rparr>)
   \<and> findById [testGuest] 10 = Some testGuest
   \<and> qrCode testGuest = Some ''lq2x7k1c-4f9a0z''
   \<and> createdBy testGuest = 1
   \<and> createdAt testGuest = 1700000000000"
  by (simp add: guarded_def checkGuestAccess_def updateGuest_def findByIdAndUpdate_def
      asyncHandler_def json_def updateErrors_def applyPatch_def setOpt_def setVal_def
      forgedPatch_def emptyPatch_def findById_def staffA_def testGuest_def)


subsection \<open>Status transitions\<close>

lemma oneWay_refl: "oneWay a a"
  by (simp add: oneWay_def)

lemma oneWay_trans: "oneWay a b \<Longrightarrow> oneWay b c \<Longrightarrow> oneWay a c"
  by (auto simp: oneWay_def)

lemma map_gid_replaceById:
  "map gid (replaceById g' s) = map gid s"
  by (induction s) auto

lemma findById_replaceById_eq:
  "findById s (gid g') \<noteq> None \<Longrightarrow>
   findById (replaceById g' s) j = (if j = gid g' then Some g' else findById s j)"
  by (simp add: findById_replaceById findById_replaceById_other)

lemma findById_None_iff: "findById s j = None \<longleftrightarrow> j \<notin> set (map gid s)"
  by (auto simp: findById_def find_None_iff)

lemma findById_removeById:
  "distinct (map gid s) \<Longrightarrow>
   findById (removeById i s) j = (if j = i then None else findById s j)"
proof (induction s)
  case Nil
  then show ?case by (simp add: findById_def)
next
  case (Cons h s)
  then show ?case
    using findById_None_iff [of s i]
    by (auto simp: findById_def)
qed

lemma set_removeById: "set (map gid (removeById i s)) \<subseteq> set (map gid s)"
  by (induction s) auto

lemma distinct_removeById:
  "distinct (map gid s) \<Longrightarrow> distinct (map gid (removeById i s))"
proof (induction s)
  case Nil
  then show ?case by simp
next
  case (Cons h s)
  then show ?case using set_removeById [of i s] by auto
qed

lemma save_cases:
  "save e g s = Inr (g2, s2) \<Longrightarrow>
   s2 = replaceById g2 s \<and> gid g2 = gid g \<and> status g2 = status g \<and> findById s (gid g) \<noteq> None"
  by (auto simp: save_def preSaveChain_def preSave_def split: if_splits)

lemma effect_registerEntry_oid: "effect s (snd (registerEntry e (Oid i) s))"
proof (cases "findById s i")
  case None
  then show ?thesis by (simp add: registerEntry_def effect_def)
next
  case (Some g)
  show ?thesis
  proof (cases "canEnter g")
    case False
    then show ?thesis using Some by (simp add: registerEntry_def effect_def)
  next
    case True
    let ?g = "g\<lparr>status := ''ingresado'', entryTime := Some (now e)\<rparr>"
    show ?thesis
    proof (cases "save e ?g s")
      case (Inl x)
      then show ?thesis
        using Some True by (simp add: registerEntry_def guest_registerEntry_def effect_def)
    next
      case (Inr r)
      obtain g2 s2 where r: "r = (g2, s2)" by (cases r)
      have c: "s2 = replaceById g2 s \<and> gid g2 = gid ?g \<and> status g2 = status ?g"
        using save_cases [of e ?g s g2 s2] Inr r by simp
      have "gid g = i" using Some by (rule findById_gid)
      then have "findById s (gid g2) = Some g" using c Some by simp
      moreover have "oneWay (status g) (status g2)"
        using c True by (simp add: oneWay_def canEnter_def)
      moreover have "snd (registerEntry e (Oid i) s) = replaceById g2 s"
        using Some True Inr r c by (simp add: registerEntry_def guest_registerEntry_def)
      ultimately show ?thesis unfolding effect_def by blast
    qed
  qed
qed

lemma effect_registerGift_oid: "effect s (snd (registerGift e (Oid i) v s))"
proof (cases "findById s i")
  case None
  then show ?thesis by (simp add: registerGift_def effect_def)
next
  case (Some g)
  show ?thesis
  proof (cases "ticketType g = Some ''invitacion''")
    case False
    then show ?thesis
      using Some by (simp add: registerGift_def guest_registerGift_def effect_def)
  next
    case True
    let ?g = "g\<lparr>gift := Some v\<rparr>"
    show ?thesis
    proof (cases "save e ?g s")
      case (Inl x)
      then show ?thesis
        using Some True by (simp add: registerGift_def guest_registerGift_def effect_def)
    next
      case (Inr r)
      obtain g2 s2 where r: "r = (g2, s2)" by (cases r)
      have c: "s2 = replaceById g2 s \<and> gid g2 = gid ?g \<and> status g2 = status ?g"
        using save_cases [of e ?g s g2 s2] Inr r by simp
      have "gid g = i" using Some by (rule findById_gid)
      then have "findById s (gid g2) = Some g" using c Some by simp
      moreover have "oneWay (status g) (status g2)"
        using c by (simp add: oneWay_def)
      moreover have "snd (registerGift e (Oid i) v s) = replaceById g2 s"
        using Some True Inr r c by (simp add: registerGift_def guest_registerGift_def)
      ultimately show ?thesis unfolding effect_def by blast
    qed
  qed
qed

lemma effect_registerEntry: "effect s (snd (registerEntry e pid s))"
proof (cases pid)
  case (Oid i)
  then show ?thesis by (simp add: effect_registerEntry_oid)
next
  case (NotAnId v)
  then show ?thesis by (simp add: registerEntry_def effect_def)
qed

lemma effect_registerGift: "effect s (snd (registerGift e pid v s))"
proof (cases pid)
  case (Oid i)
  then show ?thesis by (simp add: effect_registerGift_oid)
next
  case (NotAnId w)
  then show ?thesis by (simp add: registerGift_def effect_def)
qed

lemma effect_getGuest: "snd (getGuest d u pid s) = s"
  by (cases pid) (simp_all add: getGuest_def split: option.splits)

lemma effect_deleteGuest: "effect s (snd (deleteGuest d u pid s))"
  by (cases pid) (auto simp: deleteGuest_def effect_def split: option.splits)

lemma status_applyPatch: "pStatus p = None \<Longrightarrow> status (applyPatch p g) = status g"
  by (simp add: applyPatch_def setVal_def)

lemma effect_updateGuest_oid:
  assumes "pStatus p = None"
  shows "effect s (snd (updateGuest u (Oid i) p s))"
proof (cases "findById s i")
  case None
  then show ?thesis by (simp add: updateGuest_def effect_def)
next
  case (Some g)
  have "gid g = i" using Some by (rule findById_gid)
  then have "findById s (gid (applyPatch p g)) = Some g"
    using Some by (simp add: gid_applyPatch)
  moreover have "oneWay (status g) (status (applyPatch p g))"
    using assms by (simp add: status_applyPatch oneWay_def)
  ultimately have "effect s (replaceById (applyPatch p g) s)"
    unfolding effect_def by blast
  moreover have "effect s s" by (simp add: effect_def)
  ultimately show ?thesis
    using Some by (simp add: updateGuest_def findByIdAndUpdate_def)
qed

lemma effect_updateGuest:
  assumes "pStatus p = None"
  shows "effect s (snd (updateGuest u pid p s))"
proof (cases pid)
  case (Oid i)
  then show ?thesis using assms by (simp add: effect_updateGuest_oid)
next
  case (NotAnId v)
  then show ?thesis by (simp add: updateGuest_def effect_def)
qed

lemma snd_asyncHandler: "snd (asyncHandler k) = snd k"
  by (simp add: asyncHandler_def split: sum.splits)

lemma snd_guarded: "snd (guarded u pid s k) = s \<or> snd (guarded u pid s k) = snd k"
  by (simp add: guarded_def snd_asyncHandler split: option.splits)

lemma effect_refl: "effect s s"
  by (simp add: effect_def)

lemma effect_guarded: "effect s (snd k) \<Longrightarrow> effect s (snd (guarded u pid s k))"
  using snd_guarded [of u pid s k] effect_refl [of s] by (elim disjE) simp_all

lemma effect_router:
  "\<not> namesStatus req \<Longrightarrow> effect s (snd (router d e u req s))"
proof (cases req)
  case (CreateReq b)
  then show ?thesis using create_route_unchanged [of d e u b s] by (simp add: effect_def)
next
  case (GetReq i)
  then show ?thesis
    using effect_guarded [of s "getGuest d u i s" u i] by (simp add: effect_getGuest effect_def)
next
  case (UpdateReq i p)
  assume "\<not> namesStatus req"
  then have "pStatus p = None" using UpdateReq by simp
  then show ?thesis using UpdateReq by (simp add: effect_guarded effect_updateGuest)
next
  case (DeleteReq i)
  then show ?thesis by (simp add: effect_guarded effect_deleteGuest)
next
  case (EntryReq i)
  then show ?thesis by (simp add: effect_guarded effect_registerEntry)
next
  case (GiftReq i v)
  then show ?thesis by (simp add: effect_guarded effect_registerGift)
next
  case StatsReq
  then show ?thesis by (simp add: effect_def)
qed

lemma effect_distinct:
  "effect s s' \<Longrightarrow> distinct (map gid s) \<Longrightarrow> distinct (map gid s')"
  by (auto simp: effect_def map_gid_replaceById distinct_removeById)

lemma effect_absent:
  "effect s s' \<Longrightarrow> distinct (map gid s) \<Longrightarrow> findById s j = None \<Longrightarrow> findById s' j = None"
  by (auto simp: effect_def findById_replaceById_eq findById_removeById)

lemma effect_status:
  "effect s s' \<Longrightarrow> distinct (map gid s) \<Longrightarrow> findById s j = Some g \<Longrightarrow>
   findById s' j = Some g' \<Longrightarrow> oneWay (status g) (status g')"
  by (auto simp: effect_def findById_replaceById_eq findById_removeById oneWay_refl
      split: if_splits)

lemma run_absent:
  "list_all (\<lambda>c. \<not> namesStatus (snd (snd c))) cs \<Longrightarrow> distinct (map gid s) \<Longrightarrow>
   findById s j = None \<Longrightarrow> findById (run d cs s) j = None"
proof (induction cs arbitrary: s)
  case Nil
  then show ?case by simp
next
  case (Cons c cs)
  let ?s = "snd (router d (fst c) (fst (snd c)) (snd (snd c)) s)"
  have eff: "effect s ?s" using Cons.prems(1) by (simp add: effect_router)
  have dist: "distinct (map gid ?s)" using eff Cons.prems(2) by (rule effect_distinct)
  have none: "findById ?s j = None" using eff Cons.prems(2,3) by (rule effect_absent)
  have rest: "list_all (\<lambda>c. \<not> namesStatus (snd (snd c))) cs" using Cons.prems(1) by simp
  show ?case using Cons.IH [OF rest dist none] by simp
qed

lemma run_one_way:
  "list_all (\<lambda>c. \<not> namesStatus (snd (snd c))) cs \<Longrightarrow> distinct (map gid s) \<Longrightarrow>
   findById s j = Some g \<Longrightarrow> findById (run d cs s) j = Some g' \<Longrightarrow>
   oneWay (status g) (status g')"
proof (induction cs arbitrary: s g)
  case Nil
  then show ?case by (simp add: oneWay_refl)
next
  case (Cons c cs)
  let ?s = "snd (router d (fst c) (fst (snd c)) (snd (snd c)) s)"
  have eff: "effect s ?s" using Cons.prems(1) by (simp add: effect_router)
  have dist: "distinct (map gid ?s)" using eff Cons.prems(2) by (rule effect_distinct)
  have rest: "list_all (\<lambda>c. \<not> namesStatus (snd (snd c))) cs" using Cons.prems(1) by simp
  have final: "findById (run d cs ?s) j = Some g'" using Cons.prems(4) by simp
  show ?case
  proof (cases "findById ?s j")
    case None
    then have "findById (run d cs ?s) j = None"
      using rest dist by (simp add: run_absent)
    then show ?thesis using final by simp
  next
    case (Some g1)
    have "oneWay (status g) (status g1)"
      using eff Cons.prems(2,3) Some by (rule effect_status)
    moreover have "oneWay (status g1) (status g')"
      using Cons.IH [OF rest dist Some final] .
    ultimately show ?thesis by (rule oneWay_trans)
  qed
qed

lemma updateErrors_status:
  "updateErrors p = [] \<Longrightarrow> pStatus p = Some v \<Longrightarrow> v \<in> set statuses"
  by (auto simp: updateErrors_def statusErrors_def split: if_splits)

lemma updateGuest_accepted:
  assumes "findById s i = Some g"
    and "statusCode (fst (asyncHandler (updateGuest u (Oid i) p s))) = 200"
  shows "asyncHandler (updateGuest u (Oid i) p s)
           = (json 200 (DataOpt (Some (applyPatch p g))), replaceById (applyPatch p g) s)
         \<and> updateErrors p = []"
  using assms
  by (auto simp: updateGuest_def findByIdAndUpdate_def asyncHandler_def json_def
      split: if_splits)

text \<open>
  Claim C4, as the code has it. Take a stored guest in a collection whose ids are
  distinct. Along every sequence of requests in which no update names \<open>status\<close>
  (creations, reads, deletions, entry and gift registrations, statistics, updates of
  other fields), as long as the guest is stored its status is the one it had or has
  moved from \<open>pendiente\<close> to \<open>ingresado\<close>: nothing moves it back, and nothing
  produces \<open>cancelado\<close>. An accepted update that names \<open>status\<close> sets it to the
  value it names, whichever of the three enumerated values that is and whatever the
  status was; an accepted update that does not name it leaves it alone.
\<close>

theorem C4_status_transitions:
  assumes dist: "distinct (map gid s)" and found: "findById s i = Some g"
  shows "(\<forall>cs g'. list_all (\<lambda>c. \<not> namesStatus (snd (snd c))) cs
              \<and> findById (run d cs s) i = Some g' \<longrightarrow>
            status g' = status g \<or> (status g = ''pendiente'' \<and> status g' = ''ingresado''))
       \<and> (\<forall>u p. statusCode (fst (asyncHandler (updateGuest u (Oid i) p s))) = 200 \<longrightarrow>
            (\<exists>g'. findById (snd (asyncHandler (updateGuest u (Oid i) p s))) i = Some g'
               \<and> (case pStatus p of
                     None \<Rightarrow> status g' = status g
                   | Some v \<Rightarrow> status g' = v \<and> v \<in> set statuses)))"
proof (intro conjI allI impI)
  fix cs g'
  assume "list_all (\<lambda>c. \<not> namesStatus (snd (snd c))) cs \<and> findById (run d cs s) i = Some g'"
  then have "oneWay (status g) (status g')"
    using run_one_way [of cs s i g d g'] dist found by simp
  then show "status g' = status g \<or> (status g = ''pendiente'' \<and> status g' = ''ingresado'')"
    by (simp add: oneWay_def)
next
  fix u p
  assume ok: "statusCode (fst (asyncHandler (updateGuest u (Oid i) p s))) = 200"
  note acc = updateGuest_accepted [OF found ok]
  have "findById (snd (asyncHandler (updateGuest u (Oid i) p s))) i = Some (applyPatch p g)"
    using acc findById_after_update [OF found] by simp
  moreover have "case pStatus p of
      None \<Rightarrow> status (applyPatch p g) = status g
    | Some v \<Rightarrow> status (applyPatch p g) = v \<and> v \<in> set statuses"
    using acc updateErrors_status [of p]
    by (simp add: applyPatch_def setVal_def split: option.splits)
  ultimately show "\<exists>g'. findById (snd (asyncHandler (updateGuest u (Oid i) p s))) i = Some g'
      \<and> (case pStatus p of None \<Rightarrow> status g' = status g
          | Some v \<Rightarrow> status g' = v \<and> v \<in> set statuses)"
    by blast
qed


text \<open>The definitions a concrete request unfolds to.\<close>

lemmas eval_defs = guarded_def checkGuestAccess_def asyncHandler_def json_def findById_def
  registerEntry_def guest_registerEntry_def canEnter_def save_def preSaveChain_def
  preSave_def validate_def requiredString_def ticketTypeErrors_def ticketTypes_def
  statusErrors_def statuses_def updateGuest_def findByIdAndUpdate_def updateErrors_def
  applyPatch_def setOpt_def setVal_def

text \<open>
  The claim as stated fails: after an entry registration, the owner's update with the
  body \<^verbatim>\<open>{status: 'pendiente'}\<close> puts the guest back to \<open>pendiente\<close>.
\<close>

theorem C4_status_counterexample:
  "findById (run testDeps [(testEnv, staffA, EntryReq (Oid 10))] [testGuest]) 10
     = Some (testGuest\<lparr>status := ''ingresado'', entryTime := Some 1700000001000\<rparr>)
   \<and> findById (run testDeps
         [(testEnv, staffA, EntryReq (Oid 10)),
          (laterEnv, staffA, UpdateReq (Oid 10) (emptyPatch\<lparr>pStatus := Some ''pendiente''\<rparr>))]
         [testGuest]) 10
     = Some (testGuest\<lparr>status := ''pendiente'', entryTime := Some 1700000001000\<rparr>)"
  by (simp add: eval_defs emptyPatch_def testGuest_def staffA_def testEnv_def)

theorem C4_status_witness:
  "distinct (map gid [testGuest])
   \<and> findById [testGuest] 10 = Some testGuest
   \<and> status testGuest = ''pendiente''
   \<and> list_all (\<lambda>c. \<not> namesStatus (snd (snd c)))
        [(testEnv, staffA, EntryReq (Oid 10)), (laterEnv, adminUser, DeleteReq (Oid 11))]
   \<and> (\<exists>g'. findById (run testDeps
          [(testEnv, staffA, EntryReq (Oid 10)), (laterEnv, adminUser, DeleteReq (Oid 11))] [testGuest]) 10
          = Some g' \<and> status g' = ''ingresado'')
   \<and> statusCode (fst (asyncHandler (updateGuest staffA (Oid 10)
          (emptyPatch\<lparr>pStatus := Some ''cancelado''\<rparr>) [testGuest]))) = 200
   \<and> (\<exists>g'. findById (snd (asyncHandler (updateGuest staffA (Oid 10)
          (emptyPatch\<lparr>pStatus := Some ''cancelado''\<rparr>) [testGuest]))) 10 = Some g'
        \<and> status g' = ''cancelado'')"
proof -
  let ?cs = "[(testEnv, staffA, EntryReq (Oid 10)), (laterEnv, adminUser, DeleteReq (Oid 11))]"
  let ?p = "emptyPatch\<lparr>pStatus := Some ''cancelado''\<rparr>"
  have dist: "distinct (map gid [testGuest])" by simp
  have found: "findById [testGuest] 10 = Some testGuest"
    by (simp add: findById_def testGuest_def)
  have pending: "status testGuest = ''pendiente''" by (simp add: testGuest_def)
  have quiet: "list_all (\<lambda>c. \<not> namesStatus (snd (snd c))) ?cs" by simp
  have final: "findById (run testDeps ?cs [testGuest]) 10
      = Some (testGuest\<lparr>status := ''ingresado'', entryTime := Some 1700000001000\<rparr>)"
    by (simp add: eval_defs deleteGuest_def testGuest_def staffA_def adminUser_def testEnv_def)
  have ok: "statusCode (fst (asyncHandler (updateGuest staffA (Oid 10) ?p [testGuest]))) = 200"
    by (simp add: eval_defs emptyPatch_def testGuest_def staffA_def)
  have p: "pStatus ?p = Some ''cancelado''" by simp
  note main = C4_status_transitions [OF dist found, of testDeps]
  have "\<exists>g'. findById (snd (asyncHandler (updateGuest staffA (Oid 10) ?p [testGuest]))) 10 = Some g'
        \<and> status g' = ''cancelado''"
    using main [THEN conjunct2, rule_format, of staffA ?p, OF ok] p by auto
  then show ?thesis
    using dist found pending quiet final ok by simp
qed


subsection \<open>Entry requests one after the other, and overlapping\<close>

lemma registerEntry_phases:
  "registerEntry e pid s =
     (case guest_findById s pid of
        Inl x \<Rightarrow> (Inl x, s)
      | Inr None \<Rightarrow> (Inl (AppError ''Invitado no encontrado'' 404), s)
      | Inr (Some g) \<Rightarrow> registerEntry_loaded e g s)"
  by (simp add: registerEntry_def registerEntry_loaded_def split: sum.splits option.splits)

lemma interleave_alone:
  "interleave pid [(e, u)] [0, 0, 0] ([Start], s)
     = ([Done (fst (router d e u (EntryReq pid) s))], snd (router d e u (EntryReq pid) s))"
proof (cases "checkGuestAccess u pid s")
  case (Some r)
  then show ?thesis by (simp add: advance_def entryStep_def guarded_def Let_def)
next
  case None
  show ?thesis
  proof (cases "guest_findById s pid")
    case (Inl x)
    then show ?thesis
      using None
      by (simp add: advance_def entryStep_def guarded_def registerEntry_phases Let_def
          asyncHandler_def)
  next
    case (Inr r)
    then show ?thesis
      using None
      by (cases r)
        (simp_all add: advance_def entryStep_def guarded_def registerEntry_phases Let_def,
         simp add: asyncHandler_def)
  qed
qed

lemma entry_route_first:
  assumes "findById s i = Some g" "validate g = []" "status g = ''pendiente''"
    "role u = ''admin'' \<or> createdBy g = uid u"
  shows "router d e u (EntryReq (Oid i)) s =
     (json 200 (MessageData ''Entrada registrada exitosamente''
        (g\<lparr>status := ''ingresado'', entryTime := Some (now e)\<rparr>)),
      replaceById (g\<lparr>status := ''ingresado'', entryTime := Some (now e)\<rparr>) s)"
  using registerEntry_pending [OF assms(1,2,3), of e] guarded_allowed [OF assms(1,4)]
  by (simp add: asyncHandler_def)

lemma entry_route_again:
  assumes "findById s i = Some g" "status g \<noteq> ''pendiente''"
    "role u = ''admin'' \<or> createdBy g = uid u"
  shows "router d e u (EntryReq (Oid i)) s =
     (json 400 (Failure ''El invitado ya ha ingresado o su entrada esta cancelada''), s)"
  using registerEntry_not_pending [OF assms(1,2), of e] guarded_allowed [OF assms(1,3)]
  by (simp add: asyncHandler_def)

lemma entryCalls_again:
  assumes "findById s i = Some g" "status g \<noteq> ''pendiente''"
  shows "list_all (\<lambda>c. role (snd c) = ''admin'' \<or> createdBy g = uid (snd c)) cs \<Longrightarrow>
     map statusCode (entryCalls d cs (Oid i) s) = replicate (length cs) 400"
proof (induction cs)
  case Nil
  then show ?case by simp
next
  case (Cons c cs)
  have a: "role (snd c) = ''admin'' \<or> createdBy g = uid (snd c)"
    using Cons.prems by simp
  have "router d (fst c) (snd c) (EntryReq (Oid i)) s =
     (json 400 (Failure ''El invitado ya ha ingresado o su entrada esta cancelada''), s)"
    by (rule entry_route_again [OF assms a])
  then show ?case using Cons by (simp add: json_def)
qed

text \<open>
  Claim C9, as the code has it. On a stored, schema-valid guest with status
  \<open>pendiente\<close>, entry requests of authorized principals that are served one after
  the other are answered 200 for the first and 400 for each of the others. One request
  stepped alone through its three storage operations is the route itself.
\<close>

theorem C9_sequential_entries:
  assumes found: "findById s i = Some g"
    and valid: "validate g = []"
    and pending: "status g = ''pendiente''"
    and auth: "list_all (\<lambda>c. role (snd c) = ''admin'' \<or> createdBy g = uid (snd c)) (c # cs)"
  shows "map statusCode (entryCalls d (c # cs) (Oid i) s) = 200 # replicate (length cs) 400
       \<and> interleave (Oid i) [c] [0, 0, 0] ([Start], s)
           = ([Done (fst (router d (fst c) (snd c) (EntryReq (Oid i)) s))],
              snd (router d (fst c) (snd c) (EntryReq (Oid i)) s))"
proof
  let ?g = "g\<lparr>status := ''ingresado'', entryTime := Some (now (fst c))\<rparr>"
  let ?s = "replaceById ?g s"
  have a: "role (snd c) = ''admin'' \<or> createdBy g = uid (snd c)"
    using auth by simp
  have first: "router d (fst c) (snd c) (EntryReq (Oid i)) s =
      (json 200 (MessageData ''Entrada registrada exitosamente'' ?g), ?s)"
    by (rule entry_route_first [OF found valid pending a])
  have "gid ?g = i" using found by (simp add: findById_gid)
  then have found': "findById ?s i = Some ?g"
    using findById_replaceById [of s ?g] found by simp
  have rest: "list_all (\<lambda>c. role (snd c) = ''admin'' \<or> createdBy ?g = uid (snd c)) cs"
    using auth by simp
  have "map statusCode (entryCalls d cs (Oid i) ?s) = replicate (length cs) 400"
    using entryCalls_again [OF found' _ rest] by simp
  then show "map statusCode (entryCalls d (c # cs) (Oid i) s) = 200 # replicate (length cs) 400"
    using first by (simp add: json_def)
next
  show "interleave (Oid i) [c] [0, 0, 0] ([Start], s)
      = ([Done (fst (router d (fst c) (snd c) (EntryReq (Oid i)) s))],
         snd (router d (fst c) (snd c) (EntryReq (Oid i)) s))"
    using interleave_alone [of "Oid i" "fst c" "snd c" s d] by simp
qed

theorem C9_sequential_witness:
  "findById [testGuest] 10 = Some testGuest
   \<and> validate testGuest = []
   \<and> status testGuest = ''pendiente''
   \<and> list_all (\<lambda>c. role (snd c) = ''admin'' \<or> createdBy testGuest = uid (snd c))
        [(testEnv, staffA), (laterEnv, adminUser), (laterEnv, staffA)]
   \<and> map statusCode (entryCalls testDeps
        [(testEnv, staffA), (laterEnv, adminUser), (laterEnv, staffA)] (Oid 10) [testGuest])
       = [200, 400, 400]"
proof -
  have found: "findById [testGuest] 10 = Some testGuest"
    by (simp add: findById_def testGuest_def)
  have pending: "status testGuest = ''pendiente''" by (simp add: testGuest_def)
  have auth: "list_all (\<lambda>c. role (snd c) = ''admin'' \<or> createdBy testGuest = uid (snd c))
      [(testEnv, staffA), (laterEnv, adminUser), (laterEnv, staffA)]"
    by (simp add: testGuest_def staffA_def adminUser_def)
  show ?thesis
    using C9_sequential_entries [OF found validate_testGuest pending auth, of testDeps]
      found pending auth
    by (simp add: validate_testGuest)
qed

text \<open>
  The claim as stated fails for requests that overlap: when two requests have each
  loaded the guest before either has saved, both find \<open>pendiente\<close>, both save, and
  both are answered 200. The check and the write are two storage operations.
\<close>

theorem C9_race_counterexample:
  "interleave (Oid 10) [(testEnv, staffA), (laterEnv, adminUser)] [0, 1, 0, 1, 0, 1]
     ([Start, Start], [testGuest])
   = ([Done (json 200 (MessageData ''Entrada registrada exitosamente''
         (testGuest\<lparr>status := ''ingresado'', entryTime := Some 1700000001000\<rparr>))),
       Done (json 200 (MessageData ''Entrada registrada exitosamente''
         (testGuest\<lparr>status := ''ingresado'', entryTime := Some 1700000002000\<rparr>)))],
      [testGuest\<lparr>status := ''ingresado'', entryTime := Some 1700000002000\<rparr>])"
  by (simp add: advance_def entryStep_def registerEntry_loaded_def eval_defs Let_def
      testGuest_def staffA_def adminUser_def testEnv_def laterEnv_def)


end
